theory Spec2Isabelle
  imports Main "HOL-Library.Sublist"
begin

section \<open>Python values, exceptions and console output\<close>

text \<open>
  The notebooks are Python scripts that talk to a relational database through a
  third-party access library. Strings are modelled as \<^typ>\<open>string\<close> (bytes; the
  case mapping below is the ASCII one). An exception is a value carrying the name of
  its class and the text that \<^verbatim>\<open>str(e)\<close> yields; a computation that may raise
  returns \<open>exn + 'a\<close>, with \<open>Inl\<close> for the exception that leaves the block.
  \<open>Exn\<close> is an instance of \<^verbatim>\<open>Exception\<close>, which \<^verbatim>\<open>except Exception\<close> catches;
  \<open>Base\<close> is an exception outside that class (\<^verbatim>\<open>KeyboardInterrupt\<close>,
  \<^verbatim>\<open>SystemExit\<close>), which \<^verbatim>\<open>except Exception\<close> lets through.
\<close>

datatype exn = is_exception: Exn (cls: string) (message: string) | Base (cls: string) (message: string)

datatype scalar = SStr string | SInt int | SNull

text \<open>
  What a cell writes to the console, one entry for each call of \<^verbatim>\<open>print\<close>:
  \<open>Line s\<close> for \<^verbatim>\<open>print(s)\<close> (the text and a newline), \<open>Part s e\<close> for
  \<^verbatim>\<open>print(s, end=e)\<close>, \<open>Rows rs\<close> for \<^verbatim>\<open>print(rs)\<close> on a list of rows (their
  \<^verbatim>\<open>repr\<close> and a newline), \<open>Result_object\<close> for \<^verbatim>\<open>print(result)\<close> on the
  library's result object (a text with the object's address).
\<close>

datatype printed = Line string | Part string string | Rows "scalar list list" | Result_object

definition digit_char :: "nat \<Rightarrow> char" where
  "digit_char n = ''0123456789'' ! n"

function str_nat :: "nat \<Rightarrow> string" where
  "str_nat n = (if n < 10 then [digit_char n] else str_nat (n div 10) @ [digit_char (n mod 10)])"
  by pat_completeness auto
termination
  by (relation "measure id") auto

definition str_int :: "int \<Rightarrow> string" where
  "str_int i = (if i < 0 then CHR ''-'' # str_nat (nat (- i)) else str_nat (nat i))"

text \<open>\<^verbatim>\<open>str(x)\<close>, which is also what an f-string field \<^verbatim>\<open>{x}\<close> inserts.\<close>

fun py_str :: "scalar \<Rightarrow> string" where
  "py_str (SStr s) = s"
| "py_str (SInt i) = str_int i"
| "py_str SNull = ''None''"

definition quoted :: "string \<Rightarrow> string" where
  "quoted s = [CHR 0x27] @ s @ [CHR 0x27]"

definition ljust :: "nat \<Rightarrow> string \<Rightarrow> string" where
  "ljust width s = s @ replicate (width - length s) CHR '' ''"

definition upper_char :: "char \<Rightarrow> char" where
  "upper_char c =
     (case map_of (zip ''abcdefghijklmnopqrstuvwxyz'' ''ABCDEFGHIJKLMNOPQRSTUVWXYZ'') c of
        Some d \<Rightarrow> d | None \<Rightarrow> c)"

definition lower_char :: "char \<Rightarrow> char" where
  "lower_char c =
     (case map_of (zip ''ABCDEFGHIJKLMNOPQRSTUVWXYZ'' ''abcdefghijklmnopqrstuvwxyz'') c of
        Some d \<Rightarrow> d | None \<Rightarrow> c)"

definition upper :: "string \<Rightarrow> string" where
  "upper s = map upper_char s"

definition lower :: "string \<Rightarrow> string" where
  "lower s = map lower_char s"

text \<open>
  A \<^verbatim>\<open>for\<close> loop whose body may raise: the loop stops at the first exception and
  keeps the state reached so far.
\<close>

primrec for_each :: "('a \<Rightarrow> 's \<Rightarrow> (exn + unit) \<times> 's) \<Rightarrow> 'a list \<Rightarrow> 's \<Rightarrow> (exn + unit) \<times> 's" where
  "for_each f [] s = (Inr (), s)"
| "for_each f (x # xs) s =
     (case f x s of (Inl e, s') \<Rightarrow> (Inl e, s') | (Inr u, s') \<Rightarrow> for_each f xs s')"

section \<open>The database's \<^verbatim>\<open>LIKE\<close> operator\<close>

text \<open>
  \<^verbatim>\<open>LIKE\<close> is evaluated by the database server, not by the notebooks. It is modelled
  by its SQL semantics: in the pattern \<^verbatim>\<open>%\<close> stands for any run of characters and
  \<^verbatim>\<open>_\<close> for any one character; every other character stands for itself. The
  server of the notebooks also reads an opening bracket as the start of a character
  class; the model covers the patterns without a bracket, and nothing is stated below
  about the others. \<open>like_match p s\<close> reads "\<open>s LIKE p\<close>".
\<close>

fun like_match :: "string \<Rightarrow> string \<Rightarrow> bool" where
  "like_match [] s = (s = [])"
| "like_match (p # ps) [] = (p = CHR ''%'' \<and> like_match ps [])"
| "like_match (p # ps) (c # cs) =
     (if p = CHR ''%'' then like_match ps (c # cs) \<or> like_match (p # ps) cs
      else (p = CHR ''_'' \<or> p = c) \<and> like_match ps cs)"

text \<open>
  \<^verbatim>\<open>column.ilike(pattern)\<close> is rendered by the library as
  \<^verbatim>\<open>lower(column) LIKE lower(pattern)\<close>; a \<^verbatim>\<open>NULL\<close> column matches nothing.
\<close>

definition ilike :: "string option \<Rightarrow> string \<Rightarrow> bool" where
  "ilike column pattern =
     (case column of None \<Rightarrow> False | Some s \<Rightarrow> like_match (lower pattern) (lower s))"

section \<open>The book search notebook\<close>

text \<open>
  The three mapped classes, with the columns that \<^verbatim>\<open>search_books\<close> and the keys of
  the relationships read; the price and the release date of a book are not read. Every
  column but a key may be \<^verbatim>\<open>NULL\<close>.
\<close>

record book =
  ISBN13 :: string
  Title :: "string option"
  Language :: "string option"

record store =
  ID :: int
  StoreName :: "string option"
  Address :: "string option"

record inventory =
  StoreID :: int
  ISBN13 :: string
  AmountOfBooks :: "int option"

text \<open>
  The ORM session as \<^verbatim>\<open>search_books\<close> uses it: the filtered query, and the two
  relationships that are loaded on first access. Each may raise.
\<close>

record session =
  query_Book_filter_all :: "(book \<Rightarrow> bool) \<Rightarrow> exn + book list"
  book_inventory :: "book \<Rightarrow> exn + inventory list"
  inventory_store :: "inventory \<Rightarrow> exn + store option"

definition fmt_opt :: "string option \<Rightarrow> string" where
  "fmt_opt x = (case x of None \<Rightarrow> ''None'' | Some s \<Rightarrow> s)"

definition fmt_opt_int :: "int option \<Rightarrow> string" where
  "fmt_opt_int x = (case x of None \<Rightarrow> ''None'' | Some i \<Rightarrow> str_int i)"

text \<open>\<^verbatim>\<open>f'%{title_search}%'\<close>\<close>

definition search_pattern :: "string \<Rightarrow> string" where
  "search_pattern title_search = ''%'' @ title_search @ ''%''"

text \<open>
  \<^verbatim>\<open>results = session.query(Book).filter(Book.Title.ilike(f'%{title_search}%')).all()\<close>
\<close>

definition search_results :: "session \<Rightarrow> string \<Rightarrow> exn + book list" where
  "search_results ses title_search =
     query_Book_filter_all ses (\<lambda>b. ilike (Title b) (search_pattern title_search))"

definition print_inventory :: "session \<Rightarrow> inventory \<Rightarrow> printed list \<Rightarrow> (exn + unit) \<times> printed list" where
  "print_inventory ses inventory out =
     (case inventory_store ses inventory of
        Inl e \<Rightarrow> (Inl e, out)
      | Inr None \<Rightarrow>
          (Inl (Exn ''AttributeError''
                 (quoted ''NoneType'' @ '' object has no attribute '' @ quoted ''StoreName'')), out)
      | Inr (Some st) \<Rightarrow>
          (Inr (), out @ [Line (''  Store: '' @ fmt_opt (StoreName st) @ '', Amount: ''
                                @ fmt_opt_int (AmountOfBooks inventory))]))"

definition print_book :: "session \<Rightarrow> book \<Rightarrow> printed list \<Rightarrow> (exn + unit) \<times> printed list" where
  "print_book ses b out =
     (let out1 = out @ [Line (''Title: '' @ fmt_opt (Title b) @ '', ISBN: '' @ book.ISBN13 b),
                        Line ''Stores and availability:'']
      in case book_inventory ses b of
           Inl e \<Rightarrow> (Inl e, out1)
         | Inr invs \<Rightarrow>
             (case for_each (print_inventory ses) invs out1 of
                (Inl e, out2) \<Rightarrow> (Inl e, out2)
              | (Inr u, out2) \<Rightarrow> (Inr (), out2 @ [Line ''''])))"

text \<open>The body of the \<^verbatim>\<open>try\<close> block.\<close>

definition search_books_try :: "session \<Rightarrow> string \<Rightarrow> printed list \<Rightarrow> (exn + unit) \<times> printed list" where
  "search_books_try ses title_search out =
     (case search_results ses title_search of
        Inl e \<Rightarrow> (Inl e, out)
      | Inr results \<Rightarrow>
          if results = [] then (Inr (), out @ [Line ''No books found matching the search criteria.''])
          else for_each (print_book ses) results out)"

text \<open>
  \<^verbatim>\<open>search_books\<close>: the \<^verbatim>\<open>try\<close> block with its handler
  \<^verbatim>\<open>except Exception as e: print(f"An error occurred: {e}")\<close>, which handles the
  instances of \<^verbatim>\<open>Exception\<close> and no other exception. The first component is what the
  caller gets: \<open>Inr ()\<close> for a return of \<^verbatim>\<open>None\<close>, \<open>Inl e\<close> for an exception
  that leaves the function.
\<close>

definition search_books :: "session \<Rightarrow> string \<Rightarrow> printed list \<Rightarrow> (exn + unit) \<times> printed list" where
  "search_books ses title_search out =
     (case search_books_try ses title_search out of
        (Inl e, out') \<Rightarrow>
          if is_exception e then (Inr (), out' @ [Line (''An error occurred: '' @ message e)])
          else (Inl e, out')
      | (Inr u, out') \<Rightarrow> (Inr (), out'))"

text \<open>
  A session over given tables whose operations do not fail: the query filters the
  \<^verbatim>\<open>Books\<close> table, the relationships follow the foreign keys.
\<close>

record library_db =
  Books :: "book list"
  Stores :: "store list"
  Inventory :: "inventory list"

definition session_on :: "library_db \<Rightarrow> session" where
  "session_on db =
     \<lparr> query_Book_filter_all = (\<lambda>cond. Inr (filter cond (Books db))),
       book_inventory = (\<lambda>b. Inr (filter (\<lambda>i. inventory.ISBN13 i = book.ISBN13 b) (Inventory db))),
       inventory_store = (\<lambda>i. Inr (find (\<lambda>s. ID s = StoreID i) (Stores db))) \<rparr>"

section \<open>The library's engine and connection\<close>

text \<open>
  The access library and the database behind it are not part of the repository; the
  cells are modelled against any behaviour of theirs. \<open>create_engine\<close> and
  \<open>connect\<close> say whether \<^verbatim>\<open>create_engine(url)\<close> and \<^verbatim>\<open>engine.connect()\<close> raise;
  \<open>execute\<close> is \<^verbatim>\<open>conn.execute(text(statement), parameters)\<close> on the data \<open>'db\<close>
  the server holds: it answers with a result or raises, and leaves the data as the
  statement makes it.
\<close>

record result =
  keys :: "string list"
  rows :: "scalar list list"

record 'db transport =
  create_engine :: "exn option"
  connect :: "'db \<Rightarrow> exn option"
  execute :: "'db \<Rightarrow> string \<Rightarrow> (string \<times> scalar) list \<Rightarrow> (exn + result) \<times> 'db"

text \<open>
  The state the cells act on: the server's data, the connections handed out and closed
  so far, the statements the transport has received (text and bound parameters, as two
  components), and the console.
\<close>

record 'db world =
  data :: 'db
  acquired :: nat
  released :: nat
  sent :: "(string \<times> (string \<times> scalar) list) list"
  stdout :: "printed list"

definition print :: "printed \<Rightarrow> 'db world \<Rightarrow> 'db world" where
  "print x w = w\<lparr>stdout := stdout w @ [x]\<rparr>"

text \<open>
  \<^verbatim>\<open>with engine.connect() as conn: body\<close>. When \<^verbatim>\<open>connect\<close> raises, nothing was
  acquired and the body does not run; otherwise the connection is closed when the body
  is left, by return or by exception.
\<close>

definition with_connect ::
  "'db transport \<Rightarrow> ('db world \<Rightarrow> (exn + 'a) \<times> 'db world) \<Rightarrow> 'db world \<Rightarrow> (exn + 'a) \<times> 'db world" where
  "with_connect tr body w =
     (case connect tr (data w) of
        Some e \<Rightarrow> (Inl e, w)
      | None \<Rightarrow>
          (case body (w\<lparr>acquired := acquired w + 1\<rparr>) of
             (r, w') \<Rightarrow> (r, w'\<lparr>released := released w' + 1\<rparr>)))"

definition conn_execute ::
  "'db transport \<Rightarrow> string \<Rightarrow> (string \<times> scalar) list \<Rightarrow> 'db world \<Rightarrow> (exn + result) \<times> 'db world" where
  "conn_execute tr statement parameters w =
     (case execute tr (data w) statement parameters of
        (r, d) \<Rightarrow> (r, w\<lparr>data := d, sent := sent w @ [(statement, parameters)]\<rparr>))"

text \<open>\<^verbatim>\<open>row.name\<close>: the field of the column of that name.\<close>

definition row_attr :: "string list \<Rightarrow> scalar list \<Rightarrow> string \<Rightarrow> exn + scalar" where
  "row_attr ks row name =
     (case map_of (zip ks row) name of
        None \<Rightarrow> Inl (Exn ''AttributeError'' name)
      | Some v \<Rightarrow> Inr v)"

section \<open>The cells of the demonstration notebooks\<close>

text \<open>
  A cell returns the value it leaves in the variable \<^verbatim>\<open>result\<close>, or the exception
  that ends it.
\<close>

subsection \<open>Establishing a connection\<close>


subsection \<open>Raw SQL and the result object\<close>

definition query :: string where
  "query = ''SELECT TOP 5 Id, FirstName, LastName, Email FROM USERS ORDER BY FirstName, LastName''"

text \<open>
  \<^verbatim>\<open>
  with engine.connect() as conn:
      result = conn.execute(query)
      print(result)
      print(type(result))
      print(result.fetchall())
  \<close>
\<close>

definition fetchall_cell :: "'db transport \<Rightarrow> 'db world \<Rightarrow> (exn + result) \<times> 'db world" where
  "fetchall_cell tr w =
     with_connect tr
       (\<lambda>w1. case conn_execute tr query [] w1 of
                (Inl e, w2) \<Rightarrow> (Inl e, w2)
              | (Inr result, w2) \<Rightarrow>
                  (Inr result,
                   print (Rows (rows result))
                     (print (Line (''<class '' @ quoted ''sqlalchemy.engine.cursor.CursorResult'' @ ''>''))
                        (print Result_object w2))))
       w"

text \<open>
  \<^verbatim>\<open>
  with engine.connect() as conn:
      result = conn.execute(query)
      for row in result:
          print(f"{row.FirstName} {row.LastName}")
  \<close>
\<close>

definition print_name :: "string list \<Rightarrow> scalar list \<Rightarrow> 'db world \<Rightarrow> (exn + unit) \<times> 'db world" where
  "print_name ks row w =
     (case row_attr ks row ''FirstName'' of
        Inl e \<Rightarrow> (Inl e, w)
      | Inr first_name \<Rightarrow>
          (case row_attr ks row ''LastName'' of
             Inl e \<Rightarrow> (Inl e, w)
           | Inr last_name \<Rightarrow> (Inr (), print (Line (py_str first_name @ '' '' @ py_str last_name)) w)))"


text \<open>
  \<^verbatim>\<open>
  with engine.connect() as conn:
      result = conn.execute(query)
      for column_name in result.keys():
          print(column_name.upper().ljust(20), end='')
      print()
      for row in result:
          for field in row:
              print(field.ljust(20), end='')
          print()
  \<close>
  \<^verbatim>\<open>ljust\<close> is a method of strings: a field that is a number or \<^verbatim>\<open>None\<close> raises.
\<close>

definition print_column_names :: "string \<Rightarrow> string list \<Rightarrow> 'db world \<Rightarrow> 'db world" where
  "print_column_names e ks w = fold (\<lambda>column_name. print (Part (ljust 20 (upper column_name)) e)) ks w"

definition print_field :: "scalar \<Rightarrow> 'db world \<Rightarrow> (exn + unit) \<times> 'db world" where
  "print_field field w =
     (case field of
        SStr s \<Rightarrow> (Inr (), print (Part (ljust 20 s) []) w)
      | SInt i \<Rightarrow>
          (Inl (Exn ''AttributeError'' (quoted ''int'' @ '' object has no attribute '' @ quoted ''ljust'')), w)
      | SNull \<Rightarrow>
          (Inl (Exn ''AttributeError'' (quoted ''NoneType'' @ '' object has no attribute '' @ quoted ''ljust'')), w))"

definition print_row :: "scalar list \<Rightarrow> 'db world \<Rightarrow> (exn + unit) \<times> 'db world" where
  "print_row row w =
     (case for_each print_field row w of
        (Inl e, w') \<Rightarrow> (Inl e, w')
      | (Inr u, w') \<Rightarrow> (Inr (), print (Line []) w'))"

definition table_cell :: "'db transport \<Rightarrow> 'db world \<Rightarrow> (exn + result) \<times> 'db world" where
  "table_cell tr w =
     with_connect tr
       (\<lambda>w1. case conn_execute tr query [] w1 of
                (Inl e, w2) \<Rightarrow> (Inl e, w2)
              | (Inr result, w2) \<Rightarrow>
                  (case for_each print_row (rows result)
                          (print (Line []) (print_column_names [] (keys result) w2)) of
                     (Inl e, w3) \<Rightarrow> (Inl e, w3)
                   | (Inr u, w3) \<Rightarrow> (Inr result, w3)))
       w"

text \<open>
  The cell that fetches data in the query-builder notebook. The statement is built by
  the library from a query object; \<open>shown\<close> is the text of
  \<^verbatim>\<open>f"{query}\n\n{query.compile().params}\n"\<close>, \<open>statement\<close> and \<open>parameters\<close>
  are what the library sends for the query object.
  \<^verbatim>\<open>
  print(f"{query}\n\n{query.compile().params}\n")
  with engine.connect() as conn:
      result = conn.execute(query)
      for column_name in result.keys():
          print(column_name.upper().ljust(20), end=' ')
      print()
      for row in result:
          for field in row:
              print(str(field).ljust(20), end=' ')
          print()
  \<close>
\<close>

definition print_str_field :: "scalar \<Rightarrow> 'db world \<Rightarrow> (exn + unit) \<times> 'db world" where
  "print_str_field field w = (Inr (), print (Part (ljust 20 (py_str field)) '' '') w)"

definition print_str_row :: "scalar list \<Rightarrow> 'db world \<Rightarrow> (exn + unit) \<times> 'db world" where
  "print_str_row row w =
     (case for_each print_str_field row w of
        (Inl e, w') \<Rightarrow> (Inl e, w')
      | (Inr u, w') \<Rightarrow> (Inr (), print (Line []) w'))"

definition fetch_data_cell ::
  "'db transport \<Rightarrow> string \<Rightarrow> string \<Rightarrow> (string \<times> scalar) list \<Rightarrow> 'db world \<Rightarrow> (exn + result) \<times> 'db world" where
  "fetch_data_cell tr shown statement parameters w =
     with_connect tr
       (\<lambda>w1. case conn_execute tr statement parameters w1 of
                (Inl e, w2) \<Rightarrow> (Inl e, w2)
              | (Inr result, w2) \<Rightarrow>
                  (case for_each print_str_row (rows result)
                          (print (Line []) (print_column_names '' '' (keys result) w2)) of
                     (Inl e, w3) \<Rightarrow> (Inl e, w3)
                   | (Inr u, w3) \<Rightarrow> (Inr result, w3)))
       (print (Line shown) w)"

subsection \<open>Bound parameters and string concatenation\<close>

text \<open>
  \<^verbatim>\<open>parameterized_query = text("Select * from Users where FirstName like '%' + :first_name + '%'")\<close>
\<close>

definition parameterized_query :: string where
  "parameterized_query =
     ''Select * from Users where FirstName like '' @ quoted ''%'' @ '' + :first_name + '' @ quoted ''%''"

text \<open>
  \<^verbatim>\<open>
  with engine.connect() as conn:
      result = conn.execute(parameterized_query, {"first_name": name})
      print(result.fetchall())
  \<close>
\<close>

definition parameterized_cell :: "'db transport \<Rightarrow> string \<Rightarrow> 'db world \<Rightarrow> (exn + result) \<times> 'db world" where
  "parameterized_cell tr name w =
     with_connect tr
       (\<lambda>w1. case conn_execute tr parameterized_query [(''first_name'', SStr name)] w1 of
                (Inl e, w2) \<Rightarrow> (Inl e, w2)
              | (Inr result, w2) \<Rightarrow> (Inr result, print (Rows (rows result)) w2))
       w"

text \<open>
  \<^verbatim>\<open>unparameterized_query = text("Select * from Users where FirstName like '%" + name + "'%'")\<close>
\<close>

definition unparameterized_query :: "string \<Rightarrow> string" where
  "unparameterized_query name =
     ''Select * from Users where FirstName like '' @ [CHR 0x27] @ ''%'' @ name @ [CHR 0x27] @ ''%'' @ [CHR 0x27]"

text \<open>
  \<^verbatim>\<open>
  with engine.connect() as conn:
      result = conn.execute(unparameterized_query)
      print(result.fetchall())
  \<close>
\<close>

definition unparameterized_cell :: "'db transport \<Rightarrow> string \<Rightarrow> 'db world \<Rightarrow> (exn + result) \<times> 'db world" where
  "unparameterized_cell tr name w =
     with_connect tr
       (\<lambda>w1. case conn_execute tr (unparameterized_query name) [] w1 of
                (Inl e, w2) \<Rightarrow> (Inl e, w2)
              | (Inr result, w2) \<Rightarrow> (Inr result, print (Rows (rows result)) w2))
       w"

subsection \<open>The airport search\<close>

text \<open>The f-string of the unsafe version, with its line breaks.\<close>

definition unsafe_query :: "string \<Rightarrow> string" where
  "unsafe_query search_string =
     ''\<newline>select top 10\<newline>    IATA, \<newline>    [Airport name] as '' @ quoted ''name''
     @ '', \<newline>    [Location served] as '' @ quoted ''location''
     @ '' \<newline>from \<newline>    airports \<newline>where \<newline>    [Location served] like ''
     @ [CHR 0x27] @ ''%'' @ search_string @ ''%'' @ [CHR 0x27]"

definition safe_query :: string where
  "safe_query =
     ''select top 10 IATA, [Airport name] as '' @ quoted ''name'' @ '', [Location served] as ''
     @ quoted ''location'' @ '' from airports where [Location served] like '' @ quoted ''%''
     @ '' + :search_string + '' @ quoted ''%''"

text \<open>
  \<^verbatim>\<open>print(f"{str(airport.IATA).ljust(8)}{str(airport.name).ljust(50)}{airport.location}")\<close>
\<close>

definition print_airport :: "string list \<Rightarrow> scalar list \<Rightarrow> 'db world \<Rightarrow> (exn + unit) \<times> 'db world" where
  "print_airport ks airport w =
     (case row_attr ks airport ''IATA'' of
        Inl e \<Rightarrow> (Inl e, w)
      | Inr iata \<Rightarrow>
          (case row_attr ks airport ''name'' of
             Inl e \<Rightarrow> (Inl e, w)
           | Inr name \<Rightarrow>
               (case row_attr ks airport ''location'' of
                  Inl e \<Rightarrow> (Inl e, w)
                | Inr location \<Rightarrow>
                    (Inr (), print (Line (ljust 8 (py_str iata) @ ljust 50 (py_str name) @ py_str location)) w))))"

definition airport_heading :: string where
  "airport_heading = ljust 8 ''IATA'' @ ljust 50 ''Airport name'' @ ''Location''"

text \<open>
  \<^verbatim>\<open>
  print(f"Search string: {search_string}\n")
  with engine.connect() as conn:
      result = conn.execute(text(unsafe_query))
      print(f"{'IATA'.ljust(8)}{'Airport name'.ljust(50)}{'Location'}")
      for airport in result:
          print(...)
      print(unsafe_query, '\n')
  \<close>
\<close>

definition unsafe_cell :: "'db transport \<Rightarrow> string \<Rightarrow> 'db world \<Rightarrow> (exn + result) \<times> 'db world" where
  "unsafe_cell tr search_string w =
     with_connect tr
       (\<lambda>w1. case conn_execute tr (unsafe_query search_string) [] w1 of
                (Inl e, w2) \<Rightarrow> (Inl e, w2)
              | (Inr result, w2) \<Rightarrow>
                  (case for_each (print_airport (keys result)) (rows result)
                          (print (Line airport_heading) w2) of
                     (Inl e, w3) \<Rightarrow> (Inl e, w3)
                   | (Inr u, w3) \<Rightarrow>
                       (Inr result, print (Line (unsafe_query search_string @ '' '' @ ''\<newline>'')) w3)))
       (print (Line (''Search string: '' @ search_string @ ''\<newline>'')) w)"

text \<open>
  \<^verbatim>\<open>
  print(f"Search string: {search_string}\n")
  with engine.connect() as conn:
      result = conn.execute(safe_query, {"search_string": search_string})
      print(f"{'IATA'.ljust(8)}{'Airport name'.ljust(50)}{'Location'}")
      for airport in result:
          print(...)
      print(safe_query, '\n')
  \<close>
\<close>

definition safe_cell :: "'db transport \<Rightarrow> string \<Rightarrow> 'db world \<Rightarrow> (exn + result) \<times> 'db world" where
  "safe_cell tr search_string w =
     with_connect tr
       (\<lambda>w1. case conn_execute tr safe_query [(''search_string'', SStr search_string)] w1 of
                (Inl e, w2) \<Rightarrow> (Inl e, w2)
              | (Inr result, w2) \<Rightarrow>
                  (case for_each (print_airport (keys result)) (rows result)
                          (print (Line airport_heading) w2) of
                     (Inl e, w3) \<Rightarrow> (Inl e, w3)
                   | (Inr u, w3) \<Rightarrow>
                       (Inr result, print (Line (safe_query @ '' '' @ ''\<newline>'')) w3)))
       (print (Line (''Search string: '' @ search_string @ ''\<newline>'')) w)"

section \<open>The notebook's statements as the server evaluates them\<close>

text \<open>
  Modelled from the spec: the database server behind the transport, which is not part
  of the repository. By the spec the transport takes the template and the bindings
  apart and never assembles a statement from them, and the bound template returns
  exactly the rows whose \<^verbatim>\<open>FirstName\<close> contains the value. The SQL texts themselves
  are in the notebook; they are translated by their SQL meaning over the two tables
  they read. A bound parameter is a value of the statement:
  \<^verbatim>\<open>'%' + :first_name + '%'\<close> is the concatenation of three strings. The server of
  the notebook compares without regard to case (the search for \<^verbatim>\<open>stock\<close> lists
  \<^verbatim>\<open>Stockholm\<close>).
\<close>

record table =
  columns :: "string list"
  tuples :: "scalar list list"

record demo_db =
  Users :: table
  airports :: table

definition column_value :: "table \<Rightarrow> scalar list \<Rightarrow> string \<Rightarrow> scalar" where
  "column_value t row name = (case map_of (zip (columns t) row) name of Some v \<Rightarrow> v | None \<Rightarrow> SNull)"

fun sql_like :: "scalar \<Rightarrow> string \<Rightarrow> bool" where
  "sql_like (SStr s) pattern = like_match (lower pattern) (lower s)"
| "sql_like (SInt i) pattern = like_match (lower pattern) (lower (str_int i))"
| "sql_like SNull pattern = False"

definition where_like :: "table \<Rightarrow> string \<Rightarrow> string \<Rightarrow> scalar list list" where
  "where_like t column pattern = filter (\<lambda>row. sql_like (column_value t row column) pattern) (tuples t)"

text \<open>
  Modelled from the spec: the server's value of \<^verbatim>\<open>'%' + :p + '%'\<close>, a string for a
  string, \<^verbatim>\<open>NULL\<close> (\<open>None\<close>) for \<^verbatim>\<open>NULL\<close>, a conversion error for a number.
\<close>

fun like_operand :: "scalar \<Rightarrow> exn + string option" where
  "like_operand (SStr v) = Inr (Some (''%'' @ v @ ''%''))"
| "like_operand SNull = Inr None"
| "like_operand (SInt i) =
     Inl (Exn ''DataError'' (''Conversion failed when converting the varchar value ''
                             @ quoted ''%'' @ '' to data type int.''))"

text \<open>
  Modelled from the spec: the server's answer to
  \<^verbatim>\<open>Select * from Users where FirstName like P\<close>.
\<close>

definition select_users :: "demo_db \<Rightarrow> string option \<Rightarrow> exn + result" where
  "select_users db pattern =
     (if ''FirstName'' \<in> set (columns (Users db)) then
        Inr \<lparr> keys = columns (Users db),
              rows = (case pattern of None \<Rightarrow> [] | Some p \<Rightarrow> where_like (Users db) ''FirstName'' p) \<rparr>
      else Inl (Exn ''ProgrammingError'' (''Invalid column name '' @ quoted ''FirstName'' @ ''.'')))"

text \<open>
  Modelled from the spec: the server's answer to
  \<^verbatim>\<open>select top 10 IATA, [Airport name] as 'name', [Location served] as 'location'
  from airports where [Location served] like P\<close>, the rows taken in the table's order.
\<close>

definition select_airports :: "demo_db \<Rightarrow> string option \<Rightarrow> exn + result" where
  "select_airports db pattern =
     (if set [''IATA'', ''Airport name'', ''Location served''] \<subseteq> set (columns (airports db)) then
        Inr \<lparr> keys = [''IATA'', ''name'', ''location''],
              rows = (case pattern of
                        None \<Rightarrow> []
                      | Some p \<Rightarrow>
                          take 10
                            (map (\<lambda>row. [column_value (airports db) row ''IATA'',
                                         column_value (airports db) row ''Airport name'',
                                         column_value (airports db) row ''Location served''])
                               (where_like (airports db) ''Location served'' p))) \<rparr>
      else Inl (Exn ''ProgrammingError'' ''Invalid column name.''))"

text \<open>The search string the notebook proposes for testing.\<close>

definition payload :: string where
  "payload = [CHR 0x27] @ '';--''"

text \<open>
  Modelled from the spec: a statement with a bound parameter. The library raises when
  the dictionary has no value for it; otherwise the server evaluates the statement on
  that value.
\<close>

definition with_parameter ::
  "(string \<times> scalar) list \<Rightarrow> string \<Rightarrow> (string option \<Rightarrow> exn + result) \<Rightarrow> exn + result" where
  "with_parameter parameters name select =
     (case map_of parameters name of
        None \<Rightarrow> Inl (Exn ''StatementError'' (''A value is required for bind parameter '' @ quoted name))
      | Some v \<Rightarrow> (case like_operand v of Inl e \<Rightarrow> Inl e | Inr p \<Rightarrow> select p))"

text \<open>
  Modelled from the spec: the server with the library in front of it, on the statements
  of the notebook. The concatenated statement is covered for the proposed search
  string, where its text reads \<^verbatim>\<open>Select * from Users where FirstName like '%';--'%'\<close>:
  the statement ends at the semicolon and the rest is a comment. No statement changes
  the data.
\<close>

definition sql_server :: "demo_db transport" where
  "sql_server =
     \<lparr> create_engine = None,
       connect = (\<lambda>db. None),
       execute = (\<lambda>db statement parameters.
         (if statement = parameterized_query then
            with_parameter parameters ''first_name'' (select_users db)
          else if statement = safe_query then
            with_parameter parameters ''search_string'' (select_airports db)
          else if statement = unparameterized_query payload then
            select_users db (Some ''%'')
          else Inl (Exn ''ProgrammingError'' ''statement outside the model''),
          db)) \<rparr>"

section \<open>The placeholder binder of the specification\<close>

text \<open>
  Modelled from the spec: the Placeholder Binder (\<^verbatim>\<open>bind\<close>) with the values it
  returns. The notebooks have no binder of their own: they pass the template and the
  dictionary to the library's \<^verbatim>\<open>execute\<close>. An execution error carries a kind and a
  message; a bound query carries the template and the bindings.
\<close>

datatype error_kind = ConnectionFailure | BindingMismatch | DatabaseError

datatype execution_error = ExecutionError error_kind string

record 'v bound_query =
  template :: string
  bindings :: "(string \<times> 'v) list"

text \<open>
  Modelled from the spec: the lexical rule for placeholders, "a colon followed by one or
  more alphanumeric/underscore characters, outside of quoted string literals".
\<close>

definition name_char :: "char \<Rightarrow> bool" where
  "name_char c = (c \<in> set ''abcdefghijklmnopqrstuvwxyzABCDEFGHIJKLMNOPQRSTUVWXYZ0123456789_'')"

datatype lex_state = Outside | Quoted | Name string

definition emit :: "string \<Rightarrow> string list" where
  "emit nm = (if nm = [] then [] else [nm])"

fun scan :: "lex_state \<Rightarrow> string \<Rightarrow> string list" where
  "scan Outside [] = []"
| "scan Quoted [] = []"
| "scan (Name nm) [] = emit nm"
| "scan Quoted (c # cs) = (if c = CHR 0x27 then scan Outside cs else scan Quoted cs)"
| "scan Outside (c # cs) =
     (if c = CHR 0x27 then scan Quoted cs
      else if c = CHR '':'' then scan (Name []) cs
      else scan Outside cs)"
| "scan (Name nm) (c # cs) =
     (if name_char c then scan (Name (nm @ [c])) cs
      else emit nm @
           (if c = CHR 0x27 then scan Quoted cs
            else if c = CHR '':'' then scan (Name []) cs
            else scan Outside cs))"

definition placeholders :: "string \<Rightarrow> string list" where
  "placeholders t = remdups (scan Outside t)"

definition mismatch_text :: "string list \<Rightarrow> string list \<Rightarrow> string" where
  "mismatch_text missing unknown =
     ''placeholders without a value:'' @ concat (map (\<lambda>n. '' '' @ n) missing)
     @ ''; names without a placeholder:'' @ concat (map (\<lambda>n. '' '' @ n) unknown)"

text \<open>
  Modelled from the spec: \<^verbatim>\<open>bind(template, bindings)\<close> "fails with BindingMismatch
  when a placeholder in the template has no entry in BindingMap, or BindingMap contains
  a name not present in the template", and otherwise packages the template and the
  bindings. The spec does not fix the message; it lists the names that disagree.
\<close>

definition bind :: "string \<Rightarrow> (string \<times> 'v) list \<Rightarrow> execution_error + 'v bound_query" where
  "bind t b =
     (let missing = filter (\<lambda>p. p \<notin> set (map fst b)) (placeholders t);
          unknown = filter (\<lambda>k. k \<notin> set (placeholders t)) (map fst b)
      in if missing = [] \<and> unknown = [] then Inr \<lparr> template = t, bindings = b \<rparr>
         else Inl (ExecutionError BindingMismatch (mismatch_text missing unknown)))"

section \<open>Notions used in the statements\<close>

text \<open>
  Everything of the state but the console: the data, the two connection counts and the
  statements received.
\<close>

definition frame :: "'db world \<Rightarrow> 'db \<times> nat \<times> nat \<times> (string \<times> (string \<times> scalar) list) list" where
  "frame w = (data w, acquired w, released w, sent w)"

text \<open>
  The frame after a \<^verbatim>\<open>with\<close> block that executes one statement: untouched when
  \<^verbatim>\<open>connect\<close> raises; otherwise one connection more acquired and one more released,
  one statement more received, and the data as that statement leaves it.
\<close>

definition after_execute ::
  "'db transport \<Rightarrow> string \<Rightarrow> (string \<times> scalar) list \<Rightarrow> 'db world
   \<Rightarrow> 'db \<times> nat \<times> nat \<times> (string \<times> (string \<times> scalar) list) list" where
  "after_execute tr statement parameters w =
     (case connect tr (data w) of
        Some e \<Rightarrow> frame w
      | None \<Rightarrow> (snd (execute tr (data w) statement parameters), acquired w + 1, released w + 1,
                 sent w @ [(statement, parameters)]))"

text \<open>
  A string without the wild cards of \<^verbatim>\<open>LIKE\<close>: \<^verbatim>\<open>%\<close>, \<^verbatim>\<open>_\<close> and the opening
  bracket of a character class. Quotes, semicolons and dashes are not among them.
\<close>

definition wildcard_free :: "string \<Rightarrow> bool" where
  "wildcard_free v = list_all (\<lambda>c. c \<noteq> CHR ''%'' \<and> c \<noteq> CHR ''_'' \<and> c \<noteq> CHR ''['') v"

text \<open>
  The field, read as text, contains \<open>v\<close> as a run of consecutive characters, letters
  compared without regard to case; \<^verbatim>\<open>NULL\<close> contains nothing.
\<close>

fun contains :: "scalar \<Rightarrow> string \<Rightarrow> bool" where
  "contains (SStr s) v = sublist (lower v) (lower s)"
| "contains (SInt i) v = sublist (lower v) (lower (str_int i))"
| "contains SNull v = False"

text \<open>The rows of \<^verbatim>\<open>Users\<close> whose \<^verbatim>\<open>FirstName\<close> contains \<open>v\<close>, with all their columns.\<close>

definition users_containing :: "demo_db \<Rightarrow> string \<Rightarrow> result" where
  "users_containing db v =
     \<lparr> keys = columns (Users db),
       rows = filter (\<lambda>row. contains (column_value (Users db) row ''FirstName'') v) (tuples (Users db)) \<rparr>"

text \<open>
  The first ten rows of \<^verbatim>\<open>airports\<close> whose \<^verbatim>\<open>Location served\<close> contains \<open>v\<close>, with the
  three columns the statement selects, under the names it gives them.
\<close>

definition airports_containing :: "demo_db \<Rightarrow> string \<Rightarrow> result" where
  "airports_containing db v =
     \<lparr> keys = [''IATA'', ''name'', ''location''],
       rows = take 10
                (map (\<lambda>row. [column_value (airports db) row ''IATA'',
                              column_value (airports db) row ''Airport name'',
                              column_value (airports db) row ''Location served''])
                   (filter (\<lambda>row. contains (column_value (airports db) row ''Location served'') v)
                      (tuples (airports db)))) \<rparr>"

text \<open>
  The books of the table whose title matches the pattern made of \<^verbatim>\<open>%\<close>, the input
  and \<^verbatim>\<open>%\<close>, in the order of the table.
\<close>

definition matching :: "library_db \<Rightarrow> string \<Rightarrow> book list" where
  "matching db s = filter (\<lambda>b. ilike (Title b) (''%'' @ s @ ''%'')) (Books db)"

text \<open>The store an inventory row refers to, when the table of stores lists it.\<close>

definition store_of :: "library_db \<Rightarrow> inventory \<Rightarrow> store option" where
  "store_of db i = find (\<lambda>s. ID s = StoreID i) (Stores db)"

text \<open>
  What a search is expected to print: for each book a line with title and ISBN, the
  heading of its stores, one line for each inventory row of the book and an empty line;
  the not-found line when there is no book.
\<close>

definition inventory_report :: "library_db \<Rightarrow> inventory \<Rightarrow> printed list" where
  "inventory_report db i =
     (case store_of db i of
        None \<Rightarrow> []
      | Some st \<Rightarrow> [Line (''  Store: '' @ fmt_opt (StoreName st) @ '', Amount: ''
                           @ fmt_opt_int (AmountOfBooks i))])"

definition book_report :: "library_db \<Rightarrow> book \<Rightarrow> printed list" where
  "book_report db b =
     [Line (''Title: '' @ fmt_opt (Title b) @ '', ISBN: '' @ book.ISBN13 b),
      Line ''Stores and availability:'']
     @ concat (map (inventory_report db)
                 (filter (\<lambda>i. inventory.ISBN13 i = book.ISBN13 b) (Inventory db)))
     @ [Line []]"

definition search_report :: "library_db \<Rightarrow> book list \<Rightarrow> printed list" where
  "search_report db bs =
     (if bs = [] then [Line ''No books found matching the search criteria.'']
      else concat (map (book_report db) bs))"

text \<open>
  The state after a \<^verbatim>\<open>with\<close> block whose statement the server answered with an
  exception: one connection more acquired and one more released, the statement received,
  the data as the server left it, and nothing printed.
\<close>

definition refused :: "'db world \<Rightarrow> string \<Rightarrow> (string \<times> scalar) list \<Rightarrow> 'db \<Rightarrow> 'db world" where
  "refused w statement parameters d =
     w\<lparr>data := d, acquired := acquired w + 1, released := released w + 1,
       sent := sent w @ [(statement, parameters)]\<rparr>"




text \<open>A field that is a string.\<close>

fun is_text :: "scalar \<Rightarrow> bool" where
  "is_text (SStr s) = True"
| "is_text (SInt i) = False"
| "is_text SNull = False"

text \<open>
  The console entries for a list of column names and for one row: one entry for each
  name and for each field, in the order of the list, each upper-cased or converted and
  padded to 20 characters; a row ends with a line break.
\<close>

definition name_cells :: "string \<Rightarrow> string list \<Rightarrow> printed list" where
  "name_cells e ks = map (\<lambda>k. Part (ljust 20 (upper k)) e) ks"

definition field_cells :: "string \<Rightarrow> scalar list \<Rightarrow> printed list" where
  "field_cells e row = map (\<lambda>f. Part (ljust 20 (py_str f)) e) row @ [Line []]"

subsection \<open>Concrete transports, sessions and data\<close>

definition initial_world :: "'db \<Rightarrow> 'db world" where
  "initial_world d = \<lparr> data = d, acquired = 0, released = 0, sent = [], stdout = [] \<rparr>"


definition login_timeout :: exn where
  "login_timeout = Exn ''OperationalError'' ''Login timeout expired''"

text \<open>The interrupt of the keyboard, which is not an instance of \<^verbatim>\<open>Exception\<close>.\<close>

definition interrupt :: exn where
  "interrupt = Base ''KeyboardInterrupt'' []"

text \<open>A session every operation of which raises.\<close>

definition offline_session :: "exn \<Rightarrow> session" where
  "offline_session e =
     \<lparr> query_Book_filter_all = (\<lambda>cond. Inl e),
       book_inventory = (\<lambda>b. Inl e),
       inventory_store = (\<lambda>i. Inl e) \<rparr>"

text \<open>Two books of the notebook's output; the second is stocked by a store that is not listed.\<close>

definition lab2 :: library_db where
  "lab2 =
     \<lparr> Books = [\<lparr> book.ISBN13 = ''978-0-316-76948-0'', Title = Some ''The Secret Garden'',
                  Language = Some ''English'' \<rparr>,
                \<lparr> book.ISBN13 = ''978-1-5040-5104-2'', Title = Some ''Secrets of the Past'',
                  Language = None \<rparr>],
       Stores = [\<lparr> ID = 1, StoreName = Some ''Booktopia'', Address = None \<rparr>],
       Inventory = [\<lparr> StoreID = 1, inventory.ISBN13 = ''978-0-316-76948-0'', AmountOfBooks = Some 48 \<rparr>,
                    \<lparr> StoreID = 2, inventory.ISBN13 = ''978-1-5040-5104-2'', AmountOfBooks = Some 25 \<rparr>] \<rparr>"

text \<open>The same books, with both stores listed.\<close>

definition lab2_listed :: library_db where
  "lab2_listed =
     lab2\<lparr>Stores := [\<lparr> ID = 1, StoreName = Some ''Booktopia'', Address = None \<rparr>,
                      \<lparr> ID = 2, StoreName = Some ''Readmore Books'', Address = None \<rparr>]\<rparr>"

text \<open>Two users of the notebook's output, with the columns the first query names.\<close>

definition everyloop :: demo_db where
  "everyloop =
     \<lparr> Users = \<lparr> columns = [''Id'', ''FirstName'', ''LastName'', ''Email''],
                  tuples = [[SStr ''571110-3843'', SStr ''Frida'', SStr ''Ericson'',
                             SStr ''frida.ericson@hotmail.com''],
                            [SStr ''530720-7675'', SStr ''Alvin'', SStr ''Lindholm'',
                             SStr ''alvin.lindholm@gmail.com'']] \<rparr>,
       airports = \<lparr> columns = [''IATA'', ''Airport name'', ''Location served''],
                     tuples = [[SStr ''ARN'', SStr ''Stockholm Arlanda Airport'', SStr ''Stockholm, Sweden''],
                               [SStr ''SCK'', SStr ''Stockton Metropolitan Airport'',
                                SStr ''Stockton, California, United States'']] \<rparr> \<rparr>"

text \<open>A transport that answers every statement with the same result.\<close>

definition answering :: "result \<Rightarrow> 'db transport" where
  "answering r =
     \<lparr> create_engine = None,
       connect = (\<lambda>d. None),
       execute = (\<lambda>d statement parameters. (Inr r, d)) \<rparr>"

text \<open>Two rows of the first query's output, and a row of the query-builder notebook's.\<close>

definition top_users :: result where
  "top_users =
     \<lparr> keys = [''Id'', ''FirstName'', ''LastName'', ''Email''],
       rows = [[SStr ''741109-2058'', SStr ''Alexander'', SStr ''Dahl'', SStr ''alexander.dahl@telia.se''],
               [SStr ''530720-7675'', SStr ''Alvin'', SStr ''Lindholm'', SStr ''alvin.lindholm@gmail.com'']] \<rparr>"

definition python_users :: result where
  "python_users =
     \<lparr> keys = [''id'', ''username'', ''password'', ''server_id''],
       rows = [[SInt 3, SStr ''Anna'', SStr ''8p6mnZqeSQ'', SInt 1]] \<rparr>"

text \<open>The one user of the two whose first name contains \<^verbatim>\<open>Frida\<close>.\<close>

definition frida :: result where
  "frida =
     \<lparr> keys = [''Id'', ''FirstName'', ''LastName'', ''Email''],
       rows = [[SStr ''571110-3843'', SStr ''Frida'', SStr ''Ericson'',
                SStr ''frida.ericson@hotmail.com'']] \<rparr>"

section \<open>Properties of \<^verbatim>\<open>LIKE\<close>\<close>

lemma like_percent_all: "like_match ''%'' s"
  by (induction s) auto

lemma like_percent_iff:
  "like_match (CHR ''%'' # p) s \<longleftrightarrow> (\<exists>k\<le>length s. like_match p (drop k s))"
proof (induction s)
  case Nil
  then show ?case by (cases p) auto
next
  case (Cons c cs)
  have "like_match (CHR ''%'' # p) (c # cs)
        \<longleftrightarrow> like_match p (c # cs) \<or> like_match (CHR ''%'' # p) cs"
    by simp
  also have "\<dots> \<longleftrightarrow> like_match p (c # cs) \<or> (\<exists>k\<le>length cs. like_match p (drop k cs))"
    using Cons.IH by simp
  also have "\<dots> \<longleftrightarrow> (\<exists>k\<le>length (c # cs). like_match p (drop k (c # cs)))"
  proof
    assume "like_match p (c # cs) \<or> (\<exists>k\<le>length cs. like_match p (drop k cs))"
    then show "\<exists>k\<le>length (c # cs). like_match p (drop k (c # cs))"
    proof
      assume "like_match p (c # cs)"
      then have "like_match p (drop 0 (c # cs))" by simp
      then show ?thesis by blast
    next
      assume "\<exists>k\<le>length cs. like_match p (drop k cs)"
      then obtain k where "k \<le> length cs" "like_match p (drop k cs)" by blast
      then have "Suc k \<le> length (c # cs)" "like_match p (drop (Suc k) (c # cs))" by simp_all
      then show ?thesis by blast
    qed
  next
    assume "\<exists>k\<le>length (c # cs). like_match p (drop k (c # cs))"
    then obtain k where k: "k \<le> length (c # cs)" "like_match p (drop k (c # cs))" by blast
    show "like_match p (c # cs) \<or> (\<exists>k\<le>length cs. like_match p (drop k cs))"
    proof (cases k)
      case 0
      with k show ?thesis by simp
    next
      case (Suc j)
      with k have "j \<le> length cs" "like_match p (drop j cs)" by simp_all
      then show ?thesis by blast
    qed
  qed
  finally show ?case .
qed

lemma like_literal_prefix:
  "wildcard_free v \<Longrightarrow> like_match (v @ ''%'') s \<longleftrightarrow> prefix v s"
proof (induction v arbitrary: s)
  case Nil
  then show ?case using like_percent_all by simp
next
  case (Cons a v)
  then have a: "a \<noteq> CHR ''%''" "a \<noteq> CHR ''_''" and v: "wildcard_free v"
    by (simp_all add: wildcard_free_def)
  show ?case
  proof (cases s)
    case Nil
    with a show ?thesis by simp
  next
    case (Cons c cs)
    with a Cons.IH[OF v, of cs] show ?thesis by auto
  qed
qed

text \<open>Between two \<^verbatim>\<open>%\<close>, a text without wild cards matches exactly the strings that contain it.\<close>

lemma like_contains:
  assumes "wildcard_free v"
  shows "like_match (''%'' @ v @ ''%'') s \<longleftrightarrow> sublist v s"
proof -
  have "like_match (''%'' @ v @ ''%'') s \<longleftrightarrow> (\<exists>k\<le>length s. prefix v (drop k s))"
    using like_percent_iff[of "v @ ''%''" s] like_literal_prefix[OF assms] by simp
  also have "\<dots> \<longleftrightarrow> sublist v s"
  proof
    assume "\<exists>k\<le>length s. prefix v (drop k s)"
    then obtain k ss where "drop k s = v @ ss" by (auto simp: prefix_def)
    then have "s = take k s @ v @ ss" by (metis append_take_drop_id)
    then show "sublist v s" unfolding sublist_def by blast
  next
    assume "sublist v s"
    then obtain ps ss where s: "s = ps @ v @ ss" unfolding sublist_def by blast
    then have "length ps \<le> length s" "prefix v (drop (length ps) s)" by simp_all
    then show "\<exists>k\<le>length s. prefix v (drop k s)" by blast
  qed
  finally show ?thesis .
qed

lemma like_underscore: "like_match ''%_%'' s \<longleftrightarrow> s \<noteq> []"
proof (induction s)
  case Nil
  then show ?case by simp
next
  case (Cons c cs)
  then show ?case using like_percent_all by simp
qed

lemma lower_char_percent: "lower_char c = CHR ''%'' \<longleftrightarrow> c = CHR ''%''"
  by (auto simp: lower_char_def split: option.splits if_splits)

lemma lower_char_underscore: "lower_char c = CHR ''_'' \<longleftrightarrow> c = CHR ''_''"
  by (auto simp: lower_char_def split: option.splits if_splits)

lemma lower_char_bracket: "lower_char c = CHR ''['' \<longleftrightarrow> c = CHR ''[''"
  by (auto simp: lower_char_def split: option.splits if_splits)

lemma wildcard_free_lower: "wildcard_free (lower v) = wildcard_free v"
  by (induction v)
     (auto simp: wildcard_free_def lower_def lower_char_percent lower_char_underscore
        lower_char_bracket)

lemma lower_pattern: "lower (''%'' @ v @ ''%'') = ''%'' @ lower v @ ''%''"
  by (simp add: lower_def lower_char_def)

lemma like_contains_ci:
  assumes "wildcard_free v"
  shows "like_match (lower (''%'' @ v @ ''%'')) s \<longleftrightarrow> sublist (lower v) s"
  using like_contains[of "lower v" s] assms
  by (simp only: lower_pattern wildcard_free_lower)

lemma sql_like_contains:
  "wildcard_free v \<Longrightarrow> sql_like x (''%'' @ v @ ''%'') = contains x v"
  by (cases x) (simp_all only: sql_like.simps contains.simps like_contains_ci)

lemma wildcard_free_payload: "wildcard_free payload"
  by (simp add: wildcard_free_def payload_def)

lemma ilike_percent: "ilike (Some t) (search_pattern ''%'')"
proof -
  have "like_match ''%%%'' s" for s by (induction s) auto
  then show ?thesis by (simp add: ilike_def search_pattern_def lower_def lower_char_def)
qed

lemma ilike_underscore: "ilike (Some t) (search_pattern ''_'') \<longleftrightarrow> t \<noteq> []"
  using like_underscore[of "lower t"]
  by (simp add: ilike_def search_pattern_def lower_def lower_char_def)

section \<open>The book search\<close>

subsection \<open>What the handler lets through\<close>

text \<open>An exception that leaves a loop was raised by its body.\<close>

lemma for_each_raises:
  assumes "\<And>x s e s'. f x s = (Inl e, s') \<Longrightarrow> P e"
    and "for_each f xs s = (Inl e, s')"
  shows "P e"
  using assms(2)
proof (induction xs arbitrary: s)
  case Nil
  then show ?case by simp
next
  case (Cons x xs)
  obtain r t where f: "f x s = (r, t)" by (cases "f x s")
  show ?case
  proof (cases r)
    case (Inl e')
    with f Cons.prems have "f x s = (Inl e, s')" by simp
    then show ?thesis by (rule assms(1))
  next
    case (Inr u)
    with f Cons.prems have "for_each f xs t = (Inl e, s')" by simp
    then show ?thesis by (rule Cons.IH)
  qed
qed

lemma print_inventory_raises:
  assumes "\<And>i e. inventory_store ses i = Inl e \<Longrightarrow> is_exception e"
    and "print_inventory ses i out = (Inl e, out')"
  shows "is_exception e"
  using assms(2) assms(1)[of i]
  by (auto simp: print_inventory_def split: sum.splits option.splits)

lemma print_book_raises:
  assumes "\<And>b e. book_inventory ses b = Inl e \<Longrightarrow> is_exception e"
    and "\<And>i e. inventory_store ses i = Inl e \<Longrightarrow> is_exception e"
    and "print_book ses b out = (Inl e, out')"
  shows "is_exception e"
proof (cases "book_inventory ses b")
  case (Inl e')
  with assms(3) have "e = e'" by (simp add: print_book_def Let_def)
  with Inl assms(1) show ?thesis by simp
next
  case (Inr invs)
  let ?out1 = "out @ [Line (''Title: '' @ fmt_opt (Title b) @ '', ISBN: '' @ book.ISBN13 b),
                      Line ''Stores and availability:'']"
  obtain r o2 where fe: "for_each (print_inventory ses) invs ?out1 = (r, o2)"
    by (cases "for_each (print_inventory ses) invs ?out1")
  with Inr assms(3) have "for_each (print_inventory ses) invs ?out1 = (Inl e, o2)"
    by (cases r) (simp_all add: print_book_def Let_def)
  then show ?thesis
    by (rule for_each_raises[where f = "print_inventory ses" and P = is_exception, rotated])
       (rule print_inventory_raises[OF assms(2)])
qed

lemma search_books_try_raises:
  assumes "\<And>c e. query_Book_filter_all ses c = Inl e \<Longrightarrow> is_exception e"
    and "\<And>b e. book_inventory ses b = Inl e \<Longrightarrow> is_exception e"
    and "\<And>i e. inventory_store ses i = Inl e \<Longrightarrow> is_exception e"
    and "search_books_try ses s out = (Inl e, out')"
  shows "is_exception e"
proof (cases "search_results ses s")
  case (Inl e')
  with assms(4) have "e = e'" by (simp add: search_books_try_def)
  with Inl assms(1) show ?thesis by (simp add: search_results_def)
next
  case (Inr results)
  with assms(4) have "for_each (print_book ses) results out = (Inl e, out')"
    by (simp add: search_books_try_def split: if_splits)
  then show ?thesis
    by (rule for_each_raises[where f = "print_book ses" and P = is_exception, rotated])
       (rule print_book_raises[OF assms(2,3)])
qed

text \<open>
  Claim C10 says that \<^verbatim>\<open>search_books\<close> never lets an exception reach its caller.
  The handler is \<^verbatim>\<open>except Exception\<close>: when the keyboard interrupts the query,
  the exception is not an instance of \<^verbatim>\<open>Exception\<close>, nothing is printed and the
  interrupt leaves the function.
\<close>

theorem search_books_interrupted:
  "search_books (offline_session interrupt) ''garden'' [] = (Inl (Base ''KeyboardInterrupt'' []), [])"
  by (simp add: search_books_def search_books_try_def search_results_def offline_session_def interrupt_def)

text \<open>
  Claim C10, amended. For every input string and every behaviour of the session, no
  instance of \<^verbatim>\<open>Exception\<close> leaves \<^verbatim>\<open>search_books\<close>; when the session raises
  nothing but instances of \<^verbatim>\<open>Exception\<close>, \<^verbatim>\<open>search_books\<close> returns \<^verbatim>\<open>None\<close>.
  When the query finds no book it prints the not-found line and returns. When the query
  or the traversal of the results raises an instance of \<^verbatim>\<open>Exception\<close>, the handler
  prints its message after what was printed until then, and the function returns
  \<^verbatim>\<open>None\<close>. Any other exception is not caught: it leaves the function as it was
  raised, after what was printed until then.
\<close>

theorem search_books_catches_Exception:
  "(\<forall>e. fst (search_books ses title_search out) = Inl e \<longrightarrow> \<not> is_exception e)
   \<and> ((\<forall>c e. query_Book_filter_all ses c = Inl e \<longrightarrow> is_exception e)
        \<and> (\<forall>b e. book_inventory ses b = Inl e \<longrightarrow> is_exception e)
        \<and> (\<forall>i e. inventory_store ses i = Inl e \<longrightarrow> is_exception e) \<longrightarrow>
      fst (search_books ses title_search out) = Inr ())
   \<and> (search_results ses title_search = Inr [] \<longrightarrow>
        search_books ses title_search out
          = (Inr (), out @ [Line ''No books found matching the search criteria.'']))
   \<and> (\<forall>e out'. search_books_try ses title_search out = (Inl e, out') \<and> is_exception e \<longrightarrow>
        search_books ses title_search out
          = (Inr (), out' @ [Line (''An error occurred: '' @ message e)]))
   \<and> (\<forall>e out'. search_books_try ses title_search out = (Inl e, out') \<and> \<not> is_exception e \<longrightarrow>
        search_books ses title_search out = (Inl e, out'))"
proof -
  have 1: "\<forall>e. fst (search_books ses title_search out) = Inl e \<longrightarrow> \<not> is_exception e"
    by (auto simp: search_books_def split: prod.splits sum.splits if_splits)
  have 2: "fst (search_books ses title_search out) = Inr ()"
    if "\<forall>c e. query_Book_filter_all ses c = Inl e \<longrightarrow> is_exception e"
      "\<forall>b e. book_inventory ses b = Inl e \<longrightarrow> is_exception e"
      "\<forall>i e. inventory_store ses i = Inl e \<longrightarrow> is_exception e"
  proof -
    obtain r out' where t: "search_books_try ses title_search out = (r, out')"
      by (cases "search_books_try ses title_search out")
    show ?thesis
    proof (cases r)
      case (Inl e)
      with t have tt: "search_books_try ses title_search out = (Inl e, out')" by simp
      have "is_exception e"
        by (rule search_books_try_raises[OF _ _ _ tt]) (use that in blast)+
      with tt show ?thesis by (simp add: search_books_def)
    next
      case (Inr u)
      with t show ?thesis by (simp add: search_books_def)
    qed
  qed
  have 3: "search_results ses title_search = Inr [] \<longrightarrow>
        search_books ses title_search out
          = (Inr (), out @ [Line ''No books found matching the search criteria.''])"
    by (simp add: search_books_def search_books_try_def)
  have 4: "\<forall>e out'. search_books_try ses title_search out = (Inl e, out') \<and> is_exception e \<longrightarrow>
        search_books ses title_search out
          = (Inr (), out' @ [Line (''An error occurred: '' @ message e)])"
    by (simp add: search_books_def)
  have 5: "\<forall>e out'. search_books_try ses title_search out = (Inl e, out') \<and> \<not> is_exception e \<longrightarrow>
        search_books ses title_search out = (Inl e, out')"
    by (simp add: search_books_def)
  have 6: "(\<forall>c e. query_Book_filter_all ses c = Inl e \<longrightarrow> is_exception e)
        \<and> (\<forall>b e. book_inventory ses b = Inl e \<longrightarrow> is_exception e)
        \<and> (\<forall>i e. inventory_store ses i = Inl e \<longrightarrow> is_exception e) \<longrightarrow>
      fst (search_books ses title_search out) = Inr ()"
    by (intro impI, elim conjE, rule 2)
  show ?thesis by (intro conjI) (rule 1, rule 6, rule 3, rule 4, rule 5)
qed

lemma lab2_no_match: "search_results (session_on lab2) ''zzz'' = Inr []"
  by (simp add: search_results_def session_on_def lab2_def ilike_def search_pattern_def
        lower_def lower_char_def)

lemma lab2_missing_store:
  "search_books_try (session_on lab2) ''past'' []
   = (Inl (Exn ''AttributeError''
             (quoted ''NoneType'' @ '' object has no attribute '' @ quoted ''StoreName'')),
      [Line ''Title: Secrets of the Past, ISBN: 978-1-5040-5104-2'',
       Line ''Stores and availability:''])"
  by (simp add: search_books_try_def search_results_def session_on_def lab2_def ilike_def
        search_pattern_def lower_def lower_char_def print_book_def print_inventory_def fmt_opt_def)

text \<open>
  Nothing found; a store that is not listed, while the results are printed; a server
  that does not answer; and the interrupt, which is not caught.
\<close>

theorem search_books_catches_Exception_witness:
  "search_books (session_on lab2) ''zzz'' []
     = (Inr (), [Line ''No books found matching the search criteria.''])
   \<and> search_books (session_on lab2) ''past'' []
     = (Inr (), [Line ''Title: Secrets of the Past, ISBN: 978-1-5040-5104-2'',
                 Line ''Stores and availability:'',
                 Line (''An error occurred: '' @ quoted ''NoneType'' @ '' object has no attribute ''
                       @ quoted ''StoreName'')])
   \<and> search_books (offline_session login_timeout) ''garden'' []
     = (Inr (), [Line ''An error occurred: Login timeout expired''])
   \<and> fst (search_books (offline_session login_timeout) ''secret'' []) = Inr ()
   \<and> search_books (offline_session interrupt) ''garden'' [] = (Inl interrupt, [])"
proof -
  have a: "search_books_try (offline_session e) ''garden'' [] = (Inl e, [])" for e
    by (simp add: search_books_try_def search_results_def offline_session_def)
  have h: "(\<forall>c e. query_Book_filter_all (offline_session login_timeout) c = Inl e \<longrightarrow> is_exception e)
        \<and> (\<forall>b e. book_inventory (offline_session login_timeout) b = Inl e \<longrightarrow> is_exception e)
        \<and> (\<forall>i e. inventory_store (offline_session login_timeout) i = Inl e \<longrightarrow> is_exception e)"
    by (simp add: offline_session_def login_timeout_def)
  have i: "is_exception login_timeout" "\<not> is_exception interrupt"
    "is_exception (Exn ''AttributeError''
             (quoted ''NoneType'' @ '' object has no attribute '' @ quoted ''StoreName''))"
    by (simp_all add: login_timeout_def interrupt_def)
  have 1: "search_books (session_on lab2) ''zzz'' []
     = (Inr (), [Line ''No books found matching the search criteria.''])"
    using search_books_catches_Exception[of "session_on lab2" "''zzz''" "[]"] lab2_no_match
    by simp
  have 2: "search_books (session_on lab2) ''past'' []
     = (Inr (), [Line ''Title: Secrets of the Past, ISBN: 978-1-5040-5104-2'',
                 Line ''Stores and availability:'',
                 Line (''An error occurred: '' @ quoted ''NoneType'' @ '' object has no attribute ''
                       @ quoted ''StoreName'')])"
    using search_books_catches_Exception[of "session_on lab2" "''past''" "[]"]
      lab2_missing_store i(3)
    by simp
  have 3: "search_books (offline_session login_timeout) ''garden'' []
     = (Inr (), [Line ''An error occurred: Login timeout expired''])"
    using search_books_catches_Exception[of "offline_session login_timeout" "''garden''" "[]"]
      a[of login_timeout] i(1)
    by (simp add: login_timeout_def)
  have 4: "fst (search_books (offline_session login_timeout) ''secret'' []) = Inr ()"
    using search_books_catches_Exception[of "offline_session login_timeout" "''secret''" "[]"] h
    by blast
  have 5: "search_books (offline_session interrupt) ''garden'' [] = (Inl interrupt, [])"
    using search_books_catches_Exception[of "offline_session interrupt" "''garden''" "[]"]
      a[of interrupt] i(2)
    by simp
  show ?thesis by (intro conjI) (rule 1, rule 2, rule 3, rule 4, rule 5)
qed

subsection \<open>The pattern of the search\<close>

lemma for_each_print_inventory:
  assumes "list_all (\<lambda>i. store_of db i \<noteq> None) invs"
  shows "for_each (print_inventory (session_on db)) invs out
         = (Inr (), out @ concat (map (inventory_report db) invs))"
  using assms
proof (induction invs arbitrary: out)
  case Nil
  then show ?case by simp
next
  case (Cons i invs)
  from Cons.prems obtain st where st: "store_of db i = Some st" by auto
  then have "print_inventory (session_on db) i out = (Inr (), out @ inventory_report db i)"
    by (simp add: print_inventory_def session_on_def store_of_def inventory_report_def)
  with Cons show ?case by simp
qed

lemma print_book_report:
  assumes "list_all (\<lambda>i. store_of db i \<noteq> None) (Inventory db)"
  shows "print_book (session_on db) b out = (Inr (), out @ book_report db b)"
proof -
  let ?invs = "filter (\<lambda>i. inventory.ISBN13 i = book.ISBN13 b) (Inventory db)"
  have inv: "book_inventory (session_on db) b = Inr ?invs"
    by (simp add: session_on_def)
  from assms have "list_all (\<lambda>i. store_of db i \<noteq> None) ?invs"
    by (simp add: list_all_iff)
  then show ?thesis
    by (simp add: print_book_def inv for_each_print_inventory book_report_def)
qed

lemma for_each_print_book:
  assumes "list_all (\<lambda>i. store_of db i \<noteq> None) (Inventory db)"
  shows "for_each (print_book (session_on db)) bs out
         = (Inr (), out @ concat (map (book_report db) bs))"
  by (induction bs arbitrary: out) (simp_all add: print_book_report[OF assms])

lemma search_results_matching: "search_results (session_on db) s = Inr (matching db s)"
  by (simp add: search_results_def session_on_def matching_def search_pattern_def)

text \<open>
  Claim C9. For every input string \<open>s\<close>, the condition \<^verbatim>\<open>search_books\<close> hands to
  the query is the case-insensitive \<^verbatim>\<open>LIKE\<close> on the pattern made of \<^verbatim>\<open>%\<close>,
  \<open>s\<close> and \<^verbatim>\<open>%\<close>, with \<open>s\<close> as it was typed. On a session that filters the
  table, with every store of the inventory listed, \<^verbatim>\<open>search_books\<close> prints the
  report of exactly the books whose title matches that pattern, and returns. The wild
  cards in \<open>s\<close> act as wild cards: for the input \<^verbatim>\<open>%\<close> these are all the books
  that have a title, and for the input \<^verbatim>\<open>_\<close> all the books whose title is not
  empty, whether or not the title holds that character.
\<close>

theorem search_books_wildcards:
  "search_results ses s = query_Book_filter_all ses (\<lambda>b. ilike (Title b) (''%'' @ s @ ''%''))
   \<and> (list_all (\<lambda>i. store_of db i \<noteq> None) (Inventory db) \<longrightarrow>
        search_books (session_on db) s out = (Inr (), out @ search_report db (matching db s)))
   \<and> matching db ''%'' = filter (\<lambda>b. Title b \<noteq> None) (Books db)
   \<and> matching db ''_'' = filter (\<lambda>b. Title b \<noteq> None \<and> Title b \<noteq> Some []) (Books db)"
proof -
  have 1: "search_results ses s
           = query_Book_filter_all ses (\<lambda>b. ilike (Title b) (''%'' @ s @ ''%''))"
    by (simp add: search_results_def search_pattern_def)
  have 2: "search_books (session_on db) s out = (Inr (), out @ search_report db (matching db s))"
    if "list_all (\<lambda>i. store_of db i \<noteq> None) (Inventory db)"
    by (simp add: search_books_def search_books_try_def search_results_matching
          for_each_print_book[OF that] search_report_def)
  have p: "ilike (Title b) (''%'' @ ''%'' @ ''%'') \<longleftrightarrow> Title b \<noteq> None" for b :: book
    using ilike_percent by (cases "Title b") (simp_all add: ilike_def search_pattern_def)
  have u: "ilike (Title b) (''%'' @ ''_'' @ ''%'') \<longleftrightarrow> Title b \<noteq> None \<and> Title b \<noteq> Some []"
    for b :: book
    using ilike_underscore by (cases "Title b") (simp_all add: ilike_def search_pattern_def)
  have 3: "matching db ''%'' = filter (\<lambda>b. Title b \<noteq> None) (Books db)"
    unfolding matching_def by (simp only: p)
  have 4: "matching db ''_'' = filter (\<lambda>b. Title b \<noteq> None \<and> Title b \<noteq> Some []) (Books db)"
    unfolding matching_def by (simp only: u)
  have 5: "list_all (\<lambda>i. store_of db i \<noteq> None) (Inventory db) \<longrightarrow>
        search_books (session_on db) s out = (Inr (), out @ search_report db (matching db s))"
    by (intro impI) (rule 2)
  show ?thesis by (intro conjI) (rule 1, rule 5, rule 3, rule 4)
qed

lemma lab2_listed_stores: "list_all (\<lambda>i. store_of lab2_listed i \<noteq> None) (Inventory lab2_listed)"
  by (simp add: lab2_listed_def lab2_def store_of_def)

lemma lab2_listed_report:
  "search_report lab2_listed (Books lab2_listed)
   = [Line ''Title: The Secret Garden, ISBN: 978-0-316-76948-0'',
      Line ''Stores and availability:'',
      Line ''  Store: Booktopia, Amount: 48'',
      Line [],
      Line ''Title: Secrets of the Past, ISBN: 978-1-5040-5104-2'',
      Line ''Stores and availability:'',
      Line ''  Store: Readmore Books, Amount: 25'',
      Line []]"
  by (simp add: search_report_def book_report_def inventory_report_def store_of_def
        lab2_listed_def lab2_def fmt_opt_def fmt_opt_int_def str_int_def str_nat.simps digit_char_def)

lemma lab2_listed_g_r:
  "search_report lab2_listed (matching lab2_listed ''G_R'')
   = [Line ''Title: The Secret Garden, ISBN: 978-0-316-76948-0'',
      Line ''Stores and availability:'',
      Line ''  Store: Booktopia, Amount: 48'',
      Line []]"
  by (simp add: matching_def ilike_def lower_def lower_char_def
        search_report_def book_report_def inventory_report_def store_of_def
        lab2_listed_def lab2_def fmt_opt_def fmt_opt_int_def str_int_def str_nat.simps digit_char_def)

text \<open>
  With both stores listed, the input \<^verbatim>\<open>%\<close> prints both books, and the input
  \<^verbatim>\<open>G_R\<close> the one book whose title has a letter between a g and an r.
\<close>

theorem search_books_wildcards_witness:
  "search_books (session_on lab2_listed) ''%'' []
   = (Inr (), [Line ''Title: The Secret Garden, ISBN: 978-0-316-76948-0'',
               Line ''Stores and availability:'',
               Line ''  Store: Booktopia, Amount: 48'',
               Line [],
               Line ''Title: Secrets of the Past, ISBN: 978-1-5040-5104-2'',
               Line ''Stores and availability:'',
               Line ''  Store: Readmore Books, Amount: 25'',
               Line []])
   \<and> search_books (session_on lab2_listed) ''G_R'' []
   = (Inr (), [Line ''Title: The Secret Garden, ISBN: 978-0-316-76948-0'',
               Line ''Stores and availability:'',
               Line ''  Store: Booktopia, Amount: 48'',
               Line []])"
proof -
  have t: "filter (\<lambda>b. Title b \<noteq> None) (Books lab2_listed) = Books lab2_listed"
    by (simp add: lab2_listed_def lab2_def)
  from search_books_wildcards[of "session_on lab2_listed" "''%''" lab2_listed "[]"]
  have "search_books (session_on lab2_listed) ''%'' []
        = (Inr (), [] @ search_report lab2_listed (Books lab2_listed))"
    using lab2_listed_stores t by simp
  then have 1: "search_books (session_on lab2_listed) ''%'' []
   = (Inr (), [Line ''Title: The Secret Garden, ISBN: 978-0-316-76948-0'',
               Line ''Stores and availability:'',
               Line ''  Store: Booktopia, Amount: 48'',
               Line [],
               Line ''Title: Secrets of the Past, ISBN: 978-1-5040-5104-2'',
               Line ''Stores and availability:'',
               Line ''  Store: Readmore Books, Amount: 25'',
               Line []])"
    by (simp only: lab2_listed_report append_Nil)
  from search_books_wildcards[of "session_on lab2_listed" "''G_R''" lab2_listed "[]"]
  have "search_books (session_on lab2_listed) ''G_R'' []
        = (Inr (), [] @ search_report lab2_listed (matching lab2_listed ''G_R''))"
    using lab2_listed_stores by simp
  then have 2: "search_books (session_on lab2_listed) ''G_R'' []
   = (Inr (), [Line ''Title: The Secret Garden, ISBN: 978-0-316-76948-0'',
               Line ''Stores and availability:'',
               Line ''  Store: Booktopia, Amount: 48'',
               Line []])"
    by (simp only: lab2_listed_g_r append_Nil)
  show ?thesis by (intro conjI) (rule 1, rule 2)
qed

section \<open>What a cell leaves behind\<close>

text \<open>Printing touches the console only, and so does every loop that only prints.\<close>

lemma frame_print [simp]: "frame (print x w) = frame w"
  by (simp add: frame_def print_def)

lemma for_each_frame:
  assumes "\<And>x w. frame (snd (f x w)) = frame w"
  shows "frame (snd (for_each f xs w)) = frame w"
proof (induction xs arbitrary: w)
  case Nil
  show ?case by simp
next
  case (Cons x xs)
  obtain r w' where f: "f x w = (r, w')" by (cases "f x w")
  with assms[of x w] have fr: "frame w' = frame w" by simp
  show ?case
  proof (cases r)
    case (Inl e)
    with f fr show ?thesis by simp
  next
    case (Inr u)
    with f fr Cons.IH[of w'] show ?thesis by simp
  qed
qed

lemma for_each_value:
  assumes "\<And>x w w'. fst (f x w) = fst (f x w')"
  shows "fst (for_each f xs w) = fst (for_each f xs w')"
proof (induction xs arbitrary: w w')
  case Nil
  show ?case by simp
next
  case (Cons x xs)
  obtain r v where f: "f x w = (r, v)" by (cases "f x w")
  obtain r' v' where f': "f x w' = (r', v')" by (cases "f x w'")
  from assms[of x w w'] f f' have rr: "r' = r" by simp
  show ?case
  proof (cases r)
    case (Inl e)
    with f f' rr show ?thesis by simp
  next
    case (Inr u)
    with f f' rr Cons.IH[of v v'] show ?thesis by simp
  qed
qed

lemma consume_rows_frame:
  assumes "\<And>x w. frame (snd (f x w)) = frame w"
    and "\<And>w. frame (g w) = frame w"
  shows "frame (snd (case for_each f xs w of
                       (Inl e, w') \<Rightarrow> (Inl e, w')
                     | (Inr u, w') \<Rightarrow> (h u, g w'))) = frame w"
proof -
  obtain r w' where fe: "for_each f xs w = (r, w')" by (cases "for_each f xs w")
  have "frame w' = frame w"
    using for_each_frame[where f = f, OF assms(1), of xs w] fe by simp
  then show ?thesis using fe assms(2) by (cases r) simp_all
qed

lemma consume_rows_value:
  assumes "\<And>x w w'. fst (f x w) = fst (f x w')"
  shows "fst (case for_each f xs w of (Inl e, w') \<Rightarrow> (Inl e, w') | (Inr u, w') \<Rightarrow> (h u, g w'))
       = fst (case for_each f xs v of (Inl e, w') \<Rightarrow> (Inl e, w') | (Inr u, w') \<Rightarrow> (h u, g w'))"
proof -
  obtain r w' where a: "for_each f xs w = (r, w')" by (cases "for_each f xs w")
  obtain r' v' where b: "for_each f xs v = (r', v')" by (cases "for_each f xs v")
  from for_each_value[where f = f, OF assms, of xs w v] a b have "r' = r" by simp
  with a b show ?thesis by (cases r) simp_all
qed

lemma print_column_names_frame [simp]: "frame (print_column_names e ks w) = frame w"
  unfolding print_column_names_def by (induction ks arbitrary: w) simp_all

lemma print_name_frame [simp]: "frame (snd (print_name ks row w)) = frame w"
  by (simp add: print_name_def split: sum.splits)

lemma print_airport_frame [simp]: "frame (snd (print_airport ks row w)) = frame w"
  by (simp add: print_airport_def split: sum.splits)

lemma print_field_frame [simp]: "frame (snd (print_field x w)) = frame w"
  by (simp add: print_field_def split: scalar.splits)

lemma print_str_field_frame [simp]: "frame (snd (print_str_field x w)) = frame w"
  by (simp add: print_str_field_def)

lemma print_row_frame [simp]: "frame (snd (print_row row w)) = frame w"
  unfolding print_row_def by (rule consume_rows_frame) simp_all

lemma print_str_row_frame [simp]: "frame (snd (print_str_row row w)) = frame w"
  unfolding print_str_row_def by (rule consume_rows_frame) simp_all


lemma print_airport_value: "fst (print_airport ks row w) = fst (print_airport ks row w')"
  by (simp add: print_airport_def split: sum.splits)

text \<open>
  A \<^verbatim>\<open>with\<close> block that executes one statement and then only prints: its frame, and
  the value it ends with.
\<close>

lemma with_connect_execute_frame:
  assumes "\<And>res w. frame (snd (consume res w)) = frame w"
  shows "frame (snd (with_connect tr
           (\<lambda>w1. case conn_execute tr statement parameters w1 of
                    (Inl e, w2) \<Rightarrow> (Inl e, w2)
                  | (Inr res, w2) \<Rightarrow> consume res w2) w))
         = after_execute tr statement parameters w"
proof (cases "connect tr (data w)")
  case (Some e)
  then show ?thesis by (simp add: with_connect_def after_execute_def)
next
  case None
  obtain r d where ex: "execute tr (data w) statement parameters = (r, d)"
    by (cases "execute tr (data w) statement parameters")
  show ?thesis
  proof (cases r)
    case (Inl e)
    with None ex show ?thesis
      by (simp add: with_connect_def after_execute_def conn_execute_def frame_def)
  next
    case (Inr res)
    let ?w2 = "w\<lparr>acquired := acquired w + 1, data := d, sent := sent w @ [(statement, parameters)]\<rparr>"
    obtain v w3 where c: "consume res ?w2 = (v, w3)" by (cases "consume res ?w2")
    with assms[of res ?w2] have "frame w3 = frame ?w2" by simp
    with None ex Inr c show ?thesis
      by (simp add: with_connect_def after_execute_def conn_execute_def frame_def)
  qed
qed

lemma with_connect_execute_value:
  assumes "\<And>res w w'. fst (consume res w) = fst (consume res w')"
  shows "fst (with_connect tr
           (\<lambda>w1. case conn_execute tr statement parameters w1 of
                    (Inl e, w2) \<Rightarrow> (Inl e, w2)
                  | (Inr res, w2) \<Rightarrow> consume res w2) w)
         = (case connect tr (data w) of
              Some e \<Rightarrow> Inl e
            | None \<Rightarrow>
                (case fst (execute tr (data w) statement parameters) of
                   Inl e \<Rightarrow> Inl e
                 | Inr res \<Rightarrow> fst (consume res w)))"
proof (cases "connect tr (data w)")
  case (Some e)
  then show ?thesis by (simp add: with_connect_def)
next
  case None
  obtain r d where ex: "execute tr (data w) statement parameters = (r, d)"
    by (cases "execute tr (data w) statement parameters")
  show ?thesis
  proof (cases r)
    case (Inl e)
    with None ex show ?thesis
      by (simp add: with_connect_def conn_execute_def)
  next
    case (Inr res)
    let ?w2 = "w\<lparr>acquired := acquired w + 1, data := d, sent := sent w @ [(statement, parameters)]\<rparr>"
    obtain v w3 where c: "consume res ?w2 = (v, w3)" by (cases "consume res ?w2")
    have "fst (consume res ?w2) = fst (consume res w)" by (rule assms)
    with c have "v = fst (consume res w)" by simp
    with None ex Inr c show ?thesis
      by (simp add: with_connect_def conn_execute_def)
  qed
qed

lemma with_connect_execute_data:
  assumes ind: "\<And>res w w'. fst (consume res w) = fst (consume res w')"
    and d: "data w = data w'"
  shows "fst (with_connect tr
           (\<lambda>w1. case conn_execute tr statement parameters w1 of
                    (Inl e, w2) \<Rightarrow> (Inl e, w2)
                  | (Inr res, w2) \<Rightarrow> consume res w2) w)
       = fst (with_connect tr
           (\<lambda>w1. case conn_execute tr statement parameters w1 of
                    (Inl e, w2) \<Rightarrow> (Inl e, w2)
                  | (Inr res, w2) \<Rightarrow> consume res w2) w')"
  using ind[of _ w w']
  by (simp add: with_connect_execute_value[where consume = consume, OF ind] d
           split: option.splits sum.splits)

subsection \<open>The frame of each cell\<close>

lemma after_execute_print [simp]:
  "after_execute tr statement parameters (print x w) = after_execute tr statement parameters w"
  by (simp add: after_execute_def print_def frame_def split: option.splits)

lemma parameterized_cell_frame:
  "frame (snd (parameterized_cell tr name w))
   = after_execute tr parameterized_query [(''first_name'', SStr name)] w"
  unfolding parameterized_cell_def
  by (rule with_connect_execute_frame) simp

lemma unparameterized_cell_frame:
  "frame (snd (unparameterized_cell tr name w)) = after_execute tr (unparameterized_query name) [] w"
  unfolding unparameterized_cell_def
  by (rule with_connect_execute_frame) simp

lemma fetchall_cell_frame:
  "frame (snd (fetchall_cell tr w)) = after_execute tr query [] w"
  unfolding fetchall_cell_def
  by (rule with_connect_execute_frame) simp


lemma table_cell_frame:
  "frame (snd (table_cell tr w)) = after_execute tr query [] w"
  unfolding table_cell_def
  by (rule with_connect_execute_frame, rule trans, rule consume_rows_frame) simp_all

lemma fetch_data_cell_frame:
  "frame (snd (fetch_data_cell tr shown statement parameters w))
   = after_execute tr statement parameters w"
proof -
  have "frame (snd (fetch_data_cell tr shown statement parameters w))
        = after_execute tr statement parameters (print (Line shown) w)"
    unfolding fetch_data_cell_def
    by (rule with_connect_execute_frame, rule trans, rule consume_rows_frame) simp_all
  then show ?thesis by simp
qed

lemma unsafe_cell_frame:
  "frame (snd (unsafe_cell tr s w)) = after_execute tr (unsafe_query s) [] w"
proof -
  have "frame (snd (unsafe_cell tr s w))
        = after_execute tr (unsafe_query s) []
            (print (Line (''Search string: '' @ s @ ''\<newline>'')) w)"
    unfolding unsafe_cell_def
    by (rule with_connect_execute_frame, rule trans, rule consume_rows_frame) simp_all
  then show ?thesis by simp
qed

lemma safe_cell_frame:
  "frame (snd (safe_cell tr s w)) = after_execute tr safe_query [(''search_string'', SStr s)] w"
proof -
  have "frame (snd (safe_cell tr s w))
        = after_execute tr safe_query [(''search_string'', SStr s)]
            (print (Line (''Search string: '' @ s @ ''\<newline>'')) w)"
    unfolding safe_cell_def
    by (rule with_connect_execute_frame, rule trans, rule consume_rows_frame) simp_all
  then show ?thesis by simp
qed

lemma frame_sent:
  "frame w' = after_execute tr st ps w \<Longrightarrow>
   sent w' = sent w @ (case connect tr (data w) of None \<Rightarrow> [(st, ps)] | Some e \<Rightarrow> [])"
  by (simp add: frame_def after_execute_def split: option.splits)

lemma frame_counts:
  "frame w' = after_execute tr st ps w \<Longrightarrow>
   acquired w' = acquired w + (case connect tr (data w) of None \<Rightarrow> 1 | Some e \<Rightarrow> 0) \<and>
   released w' = released w + (case connect tr (data w) of None \<Rightarrow> 1 | Some e \<Rightarrow> 0)"
  by (simp add: frame_def after_execute_def split: option.splits)

subsection \<open>The value of a cell depends on the data only\<close>

lemma parameterized_cell_data:
  "data w = data w' \<Longrightarrow> fst (parameterized_cell tr name w) = fst (parameterized_cell tr name w')"
  unfolding parameterized_cell_def
  by (rule with_connect_execute_data) simp_all

lemma fetchall_cell_data:
  "data w = data w' \<Longrightarrow> fst (fetchall_cell tr w) = fst (fetchall_cell tr w')"
  unfolding fetchall_cell_def
  by (rule with_connect_execute_data) simp_all


lemma safe_cell_data:
  "data w = data w' \<Longrightarrow> fst (safe_cell tr s w) = fst (safe_cell tr s w')"
  unfolding safe_cell_def
  by (rule with_connect_execute_data, rule consume_rows_value, rule print_airport_value)
     (simp add: print_def)

subsection \<open>What the cells print for a result\<close>

lemma print_column_names_out:
  "print_column_names e ks w = w\<lparr>stdout := stdout w @ name_cells e ks\<rparr>"
  unfolding print_column_names_def name_cells_def
  by (induction ks arbitrary: w) (simp_all add: print_def)

lemma for_each_print_str_field:
  "for_each print_str_field row w
   = (Inr (), w\<lparr>stdout := stdout w @ map (\<lambda>f. Part (ljust 20 (py_str f)) '' '') row\<rparr>)"
  by (induction row arbitrary: w) (simp_all add: print_str_field_def print_def)

lemma print_str_row_out:
  "print_str_row row w = (Inr (), w\<lparr>stdout := stdout w @ field_cells '' '' row\<rparr>)"
  by (simp add: print_str_row_def for_each_print_str_field print_def field_cells_def)

lemma for_each_print_str_row:
  "for_each print_str_row rs w
   = (Inr (), w\<lparr>stdout := stdout w @ concat (map (field_cells '' '') rs)\<rparr>)"
  by (induction rs arbitrary: w) (simp_all add: print_str_row_out)

lemma for_each_print_field:
  "list_all is_text row \<Longrightarrow>
   for_each print_field row w
   = (Inr (), w\<lparr>stdout := stdout w @ map (\<lambda>f. Part (ljust 20 (py_str f)) []) row\<rparr>)"
proof (induction row arbitrary: w)
  case Nil
  show ?case by simp
next
  case (Cons f row)
  then obtain s where "f = SStr s" by (cases f) simp_all
  with Cons show ?case by (simp add: print_field_def print_def)
qed

lemma print_row_out:
  "list_all is_text row \<Longrightarrow>
   print_row row w = (Inr (), w\<lparr>stdout := stdout w @ field_cells [] row\<rparr>)"
  by (simp add: print_row_def for_each_print_field print_def field_cells_def)

lemma for_each_print_row:
  "list_all (list_all is_text) rs \<Longrightarrow>
   for_each print_row rs w
   = (Inr (), w\<lparr>stdout := stdout w @ concat (map (field_cells []) rs)\<rparr>)"
  by (induction rs arbitrary: w) (simp_all add: print_row_out)

section \<open>Bound parameters\<close>

text \<open>
  Claim C2. In every execution of a statement with a bound parameter, the text the
  transport receives is the template itself, whatever the value is: the cell passes the
  value in the second component, the dictionary of parameters, and never writes it into
  the text. This holds for every transport and every value; when \<^verbatim>\<open>connect\<close> raises,
  nothing is sent.
\<close>

theorem template_sent_unchanged:
  "sent (snd (parameterized_cell tr name w))
     = sent w @ (case connect tr (data w) of
                   None \<Rightarrow> [(parameterized_query, [(''first_name'', SStr name)])]
                 | Some e \<Rightarrow> [])
   \<and> sent (snd (safe_cell tr search_string w))
     = sent w @ (case connect tr (data w) of
                   None \<Rightarrow> [(safe_query, [(''search_string'', SStr search_string)])]
                 | Some e \<Rightarrow> [])"
  using frame_sent[OF parameterized_cell_frame] frame_sent[OF safe_cell_frame] by blast

text \<open>
  For comparison, the two cells that build the statement by concatenation send a text
  that holds the input, and no parameters.
\<close>

lemma unsafe_cells_send_built_text:
  "sent (snd (unparameterized_cell tr name w))
     = sent w @ (case connect tr (data w) of None \<Rightarrow> [(unparameterized_query name, [])] | Some e \<Rightarrow> [])
   \<and> sent (snd (unsafe_cell tr search_string w))
     = sent w @ (case connect tr (data w) of None \<Rightarrow> [(unsafe_query search_string, [])] | Some e \<Rightarrow> [])
   \<and> sublist name (unparameterized_query name)
   \<and> sublist search_string (unsafe_query search_string)"
proof -
  have "sublist name (unparameterized_query name)"
    unfolding sublist_def unparameterized_query_def by (metis append.assoc)
  moreover have "sublist search_string (unsafe_query search_string)"
    unfolding sublist_def unsafe_query_def by (metis append.assoc)
  ultimately show ?thesis
    using frame_sent[OF unparameterized_cell_frame] frame_sent[OF unsafe_cell_frame] by blast
qed

section \<open>The connection as a scoped resource\<close>

text \<open>
  Claim C5. Whatever the transport does in a cell that executes a statement (the
  statement returns a result, or \<^verbatim>\<open>execute\<close> raises, or \<^verbatim>\<open>connect\<close> itself raises),
  the connection acquired for the cell is released exactly once: the count of
  connections acquired and the count of connections released both grow by one when
  \<^verbatim>\<open>connect\<close> handed out a connection and by nothing when it raised, so that the two
  counts differ after the cell by what they differed before.
\<close>

theorem connection_released_once:
  "acquired (snd (parameterized_cell tr name w))
     = acquired w + (case connect tr (data w) of None \<Rightarrow> 1 | Some e \<Rightarrow> 0)
   \<and> released (snd (parameterized_cell tr name w))
     = released w + (case connect tr (data w) of None \<Rightarrow> 1 | Some e \<Rightarrow> 0)
   \<and> acquired (snd (fetch_data_cell tr shown statement parameters w))
     = acquired w + (case connect tr (data w) of None \<Rightarrow> 1 | Some e \<Rightarrow> 0)
   \<and> released (snd (fetch_data_cell tr shown statement parameters w))
     = released w + (case connect tr (data w) of None \<Rightarrow> 1 | Some e \<Rightarrow> 0)"
  using frame_counts[OF parameterized_cell_frame] frame_counts[OF fetch_data_cell_frame] by blast

section \<open>Failures\<close>



lemma refused_print:
  "refused (print x w) statement parameters d = print x (refused w statement parameters d)"
  by (simp add: refused_def print_def)





section \<open>Results\<close>

text \<open>
  Claim C7. For every successful execution the cell holds the result as the transport
  answered it, with its column names and rows in their order, and reports it in that
  order: one entry for each column name, in the order of the names (upper-cased and
  padded for display), then for each row one entry for each field in the order of the
  row, so that the field at a position stands under the name at that position. The
  first cell applies \<^verbatim>\<open>ljust\<close> to the fields themselves and is stated for rows of
  strings; the second converts every field with \<^verbatim>\<open>str\<close>. Where a cell reads a
  field by the name of its column (\<^verbatim>\<open>row.FirstName\<close>), it gets the field at the
  position of that name, for a row as long as the list of names.
\<close>

theorem result_columns_in_order:
  "(connect tr (data w) = None \<and> execute tr (data w) statement parameters = (Inr r, d) \<longrightarrow>
      fetch_data_cell tr shown statement parameters w
        = (Inr r,
           w\<lparr>data := d, acquired := acquired w + 1, released := released w + 1,
             sent := sent w @ [(statement, parameters)],
             stdout := stdout w @ [Line shown] @ name_cells '' '' (keys r) @ [Line []]
                       @ concat (map (field_cells '' '') (rows r))\<rparr>))
   \<and> (connect tr (data w) = None \<and> execute tr (data w) query [] = (Inr r, d)
        \<and> list_all (list_all is_text) (rows r) \<longrightarrow>
      table_cell tr w
        = (Inr r,
           w\<lparr>data := d, acquired := acquired w + 1, released := released w + 1,
             sent := sent w @ [(query, [])],
             stdout := stdout w @ name_cells [] (keys r) @ [Line []]
                       @ concat (map (field_cells []) (rows r))\<rparr>))
   \<and> (distinct (keys r) \<and> length row = length (keys r) \<and> i < length (keys r) \<longrightarrow>
      row_attr (keys r) row (keys r ! i) = Inr (row ! i))"
  by (simp add: fetch_data_cell_def table_cell_def with_connect_def conn_execute_def
        print_column_names_out for_each_print_str_row for_each_print_row print_def
        row_attr_def map_of_zip_nth)

text \<open>The first two rows of the notebook's table, and a row with numbers.\<close>

theorem result_columns_in_order_witness:
  "stdout (snd (table_cell (answering top_users) (initial_world ())))
     = [Part ''ID                  '' [], Part ''FIRSTNAME           '' [],
        Part ''LASTNAME            '' [], Part ''EMAIL               '' [], Line [],
        Part ''741109-2058         '' [], Part ''Alexander           '' [],
        Part ''Dahl                '' [], Part ''alexander.dahl@telia.se'' [], Line [],
        Part ''530720-7675         '' [], Part ''Alvin               '' [],
        Part ''Lindholm            '' [], Part ''alvin.lindholm@gmail.com'' [], Line []]
   \<and> fst (table_cell (answering top_users) (initial_world ())) = Inr top_users
   \<and> stdout (snd (fetch_data_cell (answering python_users) ''SELECT'' ''SELECT'' [(''param_1'', SInt 3)]
                     (initial_world ())))
     = [Line ''SELECT'',
        Part ''ID                  '' '' '', Part ''USERNAME            '' '' '',
        Part ''PASSWORD            '' '' '', Part ''SERVER_ID           '' '' '', Line [],
        Part ''3                   '' '' '', Part ''Anna                '' '' '',
        Part ''8p6mnZqeSQ          '' '' '', Part ''1                   '' '' '', Line []]
   \<and> fst (fetch_data_cell (answering python_users) ''SELECT'' ''SELECT'' [(''param_1'', SInt 3)]
            (initial_world ())) = Inr python_users
   \<and> row_attr (keys top_users)
        [SStr ''741109-2058'', SStr ''Alexander'', SStr ''Dahl'', SStr ''alexander.dahl@telia.se'']
        ''LastName'' = Inr (SStr ''Dahl'')"
proof -
  have t: "list_all (list_all is_text) (rows top_users)" by (simp add: top_users_def)
  have a: "connect (answering r) (data (initial_world ())) = None"
     "execute (answering r) (data (initial_world ())) s p = (Inr r, ())" for r s p
    by (simp_all add: answering_def)
  have n: "str_int 3 = ''3''" "str_int 1 = ''1''" by (simp_all add: str_int_def digit_char_def)
  show ?thesis
    using result_columns_in_order[of "answering top_users" "initial_world ()" query "[]" top_users "()" "[]"
           "[SStr ''741109-2058'', SStr ''Alexander'', SStr ''Dahl'', SStr ''alexander.dahl@telia.se'']" 2]
      result_columns_in_order[of "answering python_users" "initial_world ()" "''SELECT''"
         "[(''param_1'', SInt 3)]" python_users "()" "''SELECT''" "[]" 0] t a
    by (simp add: initial_world_def name_cells_def field_cells_def top_users_def python_users_def
          ljust_def upper_def upper_char_def n eval_nat_numeral)
qed

section \<open>Repeated execution\<close>











section \<open>A bound value is data\<close>

lemma select_users_containing:
  assumes "''FirstName'' \<in> set (columns (Users db))" and "wildcard_free v"
  shows "select_users db (Some (''%'' @ v @ ''%'')) = Inr (users_containing db v)"
  using assms
  by (simp add: select_users_def users_containing_def where_like_def sql_like_contains[simplified])

lemma select_airports_containing:
  assumes "set [''IATA'', ''Airport name'', ''Location served''] \<subseteq> set (columns (airports db))"
    and "wildcard_free v"
  shows "select_airports db (Some (''%'' @ v @ ''%'')) = Inr (airports_containing db v)"
  using assms
  by (simp add: select_airports_def airports_containing_def where_like_def sql_like_contains[simplified])

lemma sql_server_parameterized:
  "execute sql_server db parameterized_query [(''first_name'', SStr v)]
   = (select_users db (Some (''%'' @ v @ ''%'')), db)"
  by (simp add: sql_server_def with_parameter_def)

lemma safe_query_differs: "safe_query \<noteq> parameterized_query"
  by (simp add: safe_query_def parameterized_query_def)

lemma sql_server_safe:
  "execute sql_server db safe_query [(''search_string'', SStr v)]
   = (select_airports db (Some (''%'' @ v @ ''%'')), db)"
  by (simp add: sql_server_def with_parameter_def safe_query_differs)

lemma parameterized_cell_sql_server:
  assumes "''FirstName'' \<in> set (columns (Users (data w)))" and "wildcard_free v"
  shows "parameterized_cell sql_server v w
           = (Inr (users_containing (data w) v),
              w\<lparr>acquired := acquired w + 1, released := released w + 1,
                sent := sent w @ [(parameterized_query, [(''first_name'', SStr v)])],
                stdout := stdout w @ [Rows (rows (users_containing (data w) v))]\<rparr>)"
proof -
  have "connect sql_server (data w) = None" by (simp add: sql_server_def)
  then show ?thesis
    using select_users_containing[OF assms]
    by (simp add: parameterized_cell_def with_connect_def conn_execute_def
          sql_server_parameterized print_def)
qed

lemma print_airport_three:
  "fst (print_airport [''IATA'', ''name'', ''location''] [a, b, c] w) = Inr ()"
  by (simp add: print_airport_def row_attr_def)

lemma for_each_print_airport:
  "fst (for_each (print_airport [''IATA'', ''name'', ''location''])
          (map (\<lambda>row. [f row, g row, h row]) rs) w) = Inr ()"
proof (induction rs arbitrary: w)
  case Nil
  show ?case by simp
next
  case (Cons r rs)
  obtain u w' where p: "print_airport [''IATA'', ''name'', ''location''] [f r, g r, h r] w = (u, w')"
    by (cases "print_airport [''IATA'', ''name'', ''location''] [f r, g r, h r] w")
  with print_airport_three[of "f r" "g r" "h r" w] have "u = Inr ()" by simp
  with p Cons.IH[of w'] show ?case by simp
qed

lemma for_each_print_airport_take:
  "fst (for_each (print_airport [''IATA'', ''name'', ''location''])
          (take n (map (\<lambda>row. [f row, g row, h row]) rs)) w) = Inr ()"
  using for_each_print_airport[of f g h "take n rs" w] by (simp add: take_map)

lemma safe_cell_sql_server:
  assumes "set [''IATA'', ''Airport name'', ''Location served''] \<subseteq> set (columns (airports (data w)))"
    and "wildcard_free v"
  shows "fst (safe_cell sql_server v w) = Inr (airports_containing (data w) v)"
proof -
  let ?r = "airports_containing (data w) v"
  let ?w0 = "print (Line airport_heading) (print (Line (''Search string: '' @ v @ ''\<newline>'')) w)"
  have ex: "fst (execute sql_server (data w) safe_query [(''search_string'', SStr v)]) = Inr ?r"
    using select_airports_containing[OF assms] by (simp add: sql_server_safe)
  have c: "connect sql_server (data w) = None" by (simp add: sql_server_def)
  have "fst (safe_cell sql_server v w) =
        fst (case for_each (print_airport (keys ?r)) (rows ?r) ?w0 of
               (Inl e, w3) \<Rightarrow> (Inl e, w3)
             | (Inr u, w3) \<Rightarrow> (Inr ?r, print (Line (safe_query @ '' '' @ ''\<newline>'')) w3))"
    unfolding safe_cell_def
    by (rule trans, rule with_connect_execute_value, rule consume_rows_value, rule print_airport_value)
       (simp add: c ex print_def)
  also have "\<dots> = Inr ?r"
  proof -
    obtain u w3 where fe: "for_each (print_airport (keys ?r)) (rows ?r) ?w0 = (u, w3)"
      by (cases "for_each (print_airport (keys ?r)) (rows ?r) ?w0")
    have "fst (for_each (print_airport (keys ?r)) (rows ?r) ?w0) = Inr ()"
      unfolding airports_containing_def by (simp only: result.simps for_each_print_airport_take)
    with fe have "u = Inr ()" by simp
    with fe show ?thesis by simp
  qed
  finally show ?thesis .
qed

text \<open>
  Claim C1. A value bound to the placeholder of either template is data, whatever
  characters it holds (quotes, semicolons, comment markers). For every value the cell
  sends one statement, whose text is the template, and the statement leaves the data as
  it was. For every value without the wild cards of \<^verbatim>\<open>LIKE\<close>, which stay wild cards
  in a bound value, the rows returned are the rows whose column contains the value as
  text. So the search string \<^verbatim>\<open>';--\<close> returns no row when no first name contains it,
  and a harmless value that is contained in the same first names returns the same rows.
\<close>

theorem bound_value_is_data:
  assumes "''FirstName'' \<in> set (columns (Users (data w)))"
    and "set [''IATA'', ''Airport name'', ''Location served''] \<subseteq> set (columns (airports (data w)))"
    and "wildcard_free v"
  shows "(\<forall>u. frame (snd (parameterized_cell sql_server u w))
                = (data w, acquired w + 1, released w + 1,
                   sent w @ [(parameterized_query, [(''first_name'', SStr u)])])
              \<and> frame (snd (safe_cell sql_server u w))
                = (data w, acquired w + 1, released w + 1,
                   sent w @ [(safe_query, [(''search_string'', SStr u)])]))
         \<and> parameterized_cell sql_server v w
           = (Inr (users_containing (data w) v),
              w\<lparr>acquired := acquired w + 1, released := released w + 1,
                sent := sent w @ [(parameterized_query, [(''first_name'', SStr v)])],
                stdout := stdout w @ [Rows (rows (users_containing (data w) v))]\<rparr>)
         \<and> fst (safe_cell sql_server v w) = Inr (airports_containing (data w) v)
         \<and> wildcard_free payload
         \<and> (\<not> list_ex (\<lambda>row. contains (column_value (Users (data w)) row ''FirstName'') payload)
                  (tuples (Users (data w))) \<longrightarrow>
              fst (parameterized_cell sql_server payload w)
                = Inr \<lparr> keys = columns (Users (data w)), rows = [] \<rparr>)
         \<and> (wildcard_free benign
              \<and> list_all (\<lambda>row. contains (column_value (Users (data w)) row ''FirstName'') benign
                                = contains (column_value (Users (data w)) row ''FirstName'') v)
                   (tuples (Users (data w))) \<longrightarrow>
              fst (parameterized_cell sql_server benign w) = fst (parameterized_cell sql_server v w))"
proof -
  note cell = parameterized_cell_sql_server[OF assms(1)]
  have none: "users_containing (data w) payload = \<lparr> keys = columns (Users (data w)), rows = [] \<rparr>"
    if "\<not> list_ex (\<lambda>row. contains (column_value (Users (data w)) row ''FirstName'') payload)
                  (tuples (Users (data w)))"
    using that by (simp add: users_containing_def list_ex_iff filter_empty_conv)
  have same: "users_containing (data w) benign = users_containing (data w) v"
    if "list_all (\<lambda>row. contains (column_value (Users (data w)) row ''FirstName'') benign
                                = contains (column_value (Users (data w)) row ''FirstName'') v)
                   (tuples (Users (data w)))"
    using that by (auto simp: users_containing_def list_all_iff intro: filter_cong)
  have fr: "frame (snd (parameterized_cell sql_server u w))
                = (data w, acquired w + 1, released w + 1,
                   sent w @ [(parameterized_query, [(''first_name'', SStr u)])])
              \<and> frame (snd (safe_cell sql_server u w))
                = (data w, acquired w + 1, released w + 1,
                   sent w @ [(safe_query, [(''search_string'', SStr u)])])" for u
    by (simp add: parameterized_cell_frame safe_cell_frame after_execute_def sql_server_def)
  show ?thesis
    using cell[OF assms(3)] cell[OF wildcard_free_payload] cell[of benign] none same
      wildcard_free_payload safe_cell_sql_server[OF assms(2,3)] fr
    by auto
qed

lemma everyloop_columns:
  "''FirstName'' \<in> set (columns (Users everyloop))"
  "set [''IATA'', ''Airport name'', ''Location served''] \<subseteq> set (columns (airports everyloop))"
  by (simp_all add: everyloop_def)

lemma everyloop_not_contained:
  "\<not> contains (SStr ''Frida'') payload" "\<not> contains (SStr ''Alvin'') payload"
  "\<not> contains (SStr ''Frida'') ''Zlatan''" "\<not> contains (SStr ''Alvin'') ''Zlatan''"
  "\<not> contains (SStr ''Stockholm, Sweden'') payload"
  "\<not> contains (SStr ''Stockton, California, United States'') payload"
  by (simp_all add: payload_def lower_def lower_char_def) code_simp+

text \<open>
  On the two users of the notebook, the search string proposed for testing returns no
  row, as a name that nobody bears does; one statement is sent and the data stays.
\<close>

theorem bound_value_is_data_witness:
  "parameterized_cell sql_server payload (initial_world everyloop)
     = (Inr \<lparr> keys = [''Id'', ''FirstName'', ''LastName'', ''Email''], rows = [] \<rparr>,
        \<lparr> data = everyloop, acquired = 1, released = 1,
          sent = [(parameterized_query, [(''first_name'', SStr payload)])],
          stdout = [Rows []] \<rparr>)
   \<and> fst (safe_cell sql_server payload (initial_world everyloop))
     = Inr \<lparr> keys = [''IATA'', ''name'', ''location''], rows = [] \<rparr>
   \<and> fst (parameterized_cell sql_server ''Zlatan'' (initial_world everyloop))
     = fst (parameterized_cell sql_server payload (initial_world everyloop))"
proof -
  note c = everyloop_not_contained
  have u: "users_containing everyloop payload
           = \<lparr> keys = [''Id'', ''FirstName'', ''LastName'', ''Email''], rows = [] \<rparr>"
    using c by (simp add: users_containing_def everyloop_def column_value_def)
  have a: "airports_containing everyloop payload
           = \<lparr> keys = [''IATA'', ''name'', ''location''], rows = [] \<rparr>"
    using c by (simp add: airports_containing_def everyloop_def column_value_def)
  have z: "wildcard_free ''Zlatan''" by (simp add: wildcard_free_def)
  have h: "list_all (\<lambda>row. contains (column_value (Users everyloop) row ''FirstName'') ''Zlatan''
                                = contains (column_value (Users everyloop) row ''FirstName'') payload)
                   (tuples (Users everyloop))"
    using c by (simp add: everyloop_def column_value_def)
  have p: "''FirstName'' \<in> set (columns (Users (data (initial_world everyloop))))"
    "set [''IATA'', ''Airport name'', ''Location served'']
     \<subseteq> set (columns (airports (data (initial_world everyloop))))"
    using everyloop_columns by (simp_all add: initial_world_def)
  show ?thesis
    using bound_value_is_data[OF p wildcard_free_payload, of "''Zlatan''"] u a z h
    by (simp add: initial_world_def)
qed

text \<open>
  For comparison, the concatenated statement of the notebook with the same search
  string returns every user, as the notebook shows.
\<close>

lemma concatenated_payload_selects_all:
  "fst (unparameterized_cell sql_server payload (initial_world everyloop))
   = Inr \<lparr> keys = columns (Users everyloop), rows = tuples (Users everyloop) \<rparr>"
  by (simp add: unparameterized_cell_def with_connect_def conn_execute_def sql_server_def
        select_users_def where_like_def column_value_def everyloop_def initial_world_def
        lower_def lower_char_def unparameterized_query_def parameterized_query_def safe_query_def
        payload_def quoted_def)

section \<open>The binder\<close>

text \<open>
  Every name the lexical rule extracts is a run of one or more name characters that
  follows a colon in the template.
\<close>

lemma scan_names:
  "n \<in> set (scan st cs) \<Longrightarrow> (case st of Name nm \<Rightarrow> list_all name_char nm | _ \<Rightarrow> True) \<Longrightarrow>
   n \<noteq> [] \<and> list_all name_char n"
  by (induction st cs rule: scan.induct) (auto simp: emit_def split: if_splits)

lemma placeholders_are_names:
  "n \<in> set (placeholders t) \<Longrightarrow> n \<noteq> [] \<and> list_all name_char n"
  using scan_names[of n Outside t] by (simp add: placeholders_def)

lemma scan_after_colon:
  "n \<in> set (scan st cs) \<Longrightarrow>
   (case st of Name nm \<Rightarrow> (\<exists>q. pre = q @ CHR '':'' # nm) | _ \<Rightarrow> True) \<Longrightarrow>
   sublist (CHR '':'' # n) (pre @ cs)"
proof (induction st cs arbitrary: pre rule: scan.induct)
  case 1
  then show ?case by simp
next
  case 2
  then show ?case by simp
next
  case (3 nm)
  then obtain q where "pre = q @ CHR '':'' # nm" and "n = nm"
    by (auto simp: emit_def split: if_splits)
  then have "pre @ [] = q @ (CHR '':'' # n) @ []" by simp
  then show ?case unfolding sublist_def by blast
next
  case (4 c cs)
  have "sublist (CHR '':'' # n) ((pre @ [c]) @ cs)"
  proof (cases "c = CHR 0x27")
    case True
    with "4.prems"(1) "4.IH"(1)[of "pre @ [c]"] show ?thesis by simp
  next
    case False
    with "4.prems"(1) "4.IH"(2)[of "pre @ [c]"] show ?thesis by simp
  qed
  then show ?case by simp
next
  case (5 c cs)
  have "sublist (CHR '':'' # n) ((pre @ [c]) @ cs)"
  proof (cases "c = CHR 0x27")
    case True
    with "5.prems"(1) "5.IH"(1)[of "pre @ [c]"] show ?thesis by simp
  next
    case nq: False
    show ?thesis
    proof (cases "c = CHR '':''")
      case True
      with nq "5.prems"(1) "5.IH"(2)[of "pre @ [c]"] show ?thesis by simp
    next
      case False
      with nq "5.prems"(1) "5.IH"(3)[of "pre @ [c]"] show ?thesis by simp
    qed
  qed
  then show ?case by simp
next
  case (6 nm c cs)
  from "6.prems"(2) obtain q where q: "pre = q @ CHR '':'' # nm" by auto
  show ?case
  proof (cases "name_char c")
    case True
    with "6.prems"(1) have "n \<in> set (scan (Name (nm @ [c])) cs)" by simp
    moreover have "\<exists>q'. pre @ [c] = q' @ CHR '':'' # (nm @ [c])" using q by simp
    ultimately have "sublist (CHR '':'' # n) ((pre @ [c]) @ cs)"
      using "6.IH"(1)[OF True, of "pre @ [c]"] by simp
    then show ?thesis by simp
  next
    case False
    with "6.prems"(1) consider (here) "n \<in> set (emit nm)"
      | (later) "n \<in> set (if c = CHR 0x27 then scan Quoted cs
            else if c = CHR '':'' then scan (Name []) cs else scan Outside cs)"
      by auto
    then show ?thesis
    proof cases
      case here
      then have "n = nm" by (auto simp: emit_def split: if_splits)
      with q have "pre @ c # cs = q @ (CHR '':'' # n) @ (c # cs)" by simp
      then show ?thesis unfolding sublist_def by blast
    next
      case later
      have "sublist (CHR '':'' # n) ((pre @ [c]) @ cs)"
      proof (cases "c = CHR 0x27")
        case True
        with later False "6.IH"(2)[of "pre @ [c]"] show ?thesis by simp
      next
        case nq: False
        show ?thesis
        proof (cases "c = CHR '':''")
          case True
          with later False nq "6.IH"(3)[of "pre @ [c]"] show ?thesis by simp
        next
          case nc: False
          with later False nq "6.IH"(4)[of "pre @ [c]"] show ?thesis by simp
        qed
      qed
      then show ?thesis by simp
    qed
  qed
qed

lemma placeholders_occur:
  "n \<in> set (placeholders t) \<Longrightarrow> sublist (CHR '':'' # n) t"
  using scan_after_colon[of n Outside t "[]"] by (simp add: placeholders_def)

lemma placeholders_parameterized: "placeholders parameterized_query = [''first_name'']"
  by (simp add: placeholders_def parameterized_query_def quoted_def name_char_def emit_def)

lemma placeholders_safe: "placeholders safe_query = [''search_string'']"
  by (simp add: placeholders_def safe_query_def quoted_def name_char_def emit_def)

text \<open>
  Claim C3. For every template and every binding map, when some placeholder of the
  template has no entry in the map, or the map has a name that is no placeholder of the
  template, \<^verbatim>\<open>bind\<close> fails with a \<^verbatim>\<open>BindingMismatch\<close> error and returns no bound
  query.
\<close>

theorem bind_mismatch:
  "(\<exists>p\<in>set (placeholders t). p \<notin> fst ` set b) \<or> (\<exists>k\<in>fst ` set b. k \<notin> set (placeholders t)) \<Longrightarrow>
   bind t b = Inl (ExecutionError BindingMismatch
                    (mismatch_text (filter (\<lambda>p. p \<notin> set (map fst b)) (placeholders t))
                                   (filter (\<lambda>k. k \<notin> set (placeholders t)) (map fst b))))"
  by (auto simp: bind_def Let_def filter_empty_conv)

text \<open>The notebook's template without a value, and with a name too many.\<close>

theorem bind_mismatch_witness:
  "bind parameterized_query ([] :: (string \<times> scalar) list)
     = Inl (ExecutionError BindingMismatch
             ''placeholders without a value: first_name; names without a placeholder:'')
   \<and> bind parameterized_query [(''first_name'', SStr ''Frida''), (''last_name'', SStr ''Ericson'')]
     = Inl (ExecutionError BindingMismatch
             ''placeholders without a value:; names without a placeholder: last_name'')"
  using bind_mismatch[of parameterized_query "[] :: (string \<times> scalar) list"]
        bind_mismatch[of parameterized_query
          "[(''first_name'', SStr ''Frida''), (''last_name'', SStr ''Ericson'')]"]
  by (simp add: placeholders_parameterized mismatch_text_def)

text \<open>
  Claim C4. For every template and every binding map whose names are exactly the
  placeholders of the template, \<^verbatim>\<open>bind\<close> succeeds, and the bound query carries the
  template and the binding map as they were given.
\<close>

theorem bind_round_trip:
  "set (placeholders t) = fst ` set b \<Longrightarrow> bind t b = Inr \<lparr> template = t, bindings = b \<rparr>"
  by (auto simp: bind_def Let_def filter_empty_conv)

text \<open>The two templates of the notebook with the dictionaries the cells pass.\<close>

theorem bind_round_trip_witness:
  "bind safe_query [(''search_string'', SStr payload)]
     = Inr \<lparr> template = safe_query, bindings = [(''search_string'', SStr payload)] \<rparr>
   \<and> bind parameterized_query [(''first_name'', SStr ''Frida'')]
     = Inr \<lparr> template = parameterized_query, bindings = [(''first_name'', SStr ''Frida'')] \<rparr>"
  using bind_round_trip[of safe_query "[(''search_string'', SStr payload)]"]
        bind_round_trip[of parameterized_query "[(''first_name'', SStr ''Frida'')]"]
  by (simp add: placeholders_parameterized placeholders_safe)

end
